theory Spec2Isabelle
  imports Complex_Main
begin

section \<open>Values decoded from the providers' JSON\<close>

text \<open>
  \<^verbatim>\<open>collector.py\<close> works on the loosely typed records the playlist provider returns:
  Python's \<^verbatim>\<open>None\<close>, booleans, numbers, strings, lists and string-keyed dictionaries.
  A dictionary is an association list in insertion order; a lookup takes the first
  binding of a key.
\<close>

datatype pyval =
    PNone
  | PBool bool
  | PInt int
  | PFloat real
  | PStr string
  | PList "pyval list"
  | PDict "(string \<times> pyval) list"

text \<open>The exceptions the modelled code can meet; all of them derive from \<^verbatim>\<open>Exception\<close>.\<close>

datatype exn =
    AttributeError
  | TypeError
  | FileNotFoundError
  | FileExistsError
  | IsADirectoryError
  | NotADirectoryError
  | ProviderError string

text \<open>Python's truth value of an object (\<^verbatim>\<open>if x\<close>, \<^verbatim>\<open>not x\<close>).\<close>

fun truthy :: "pyval \<Rightarrow> bool" where
  "truthy PNone = False"
| "truthy (PBool b) = b"
| "truthy (PInt i) = (i \<noteq> 0)"
| "truthy (PFloat r) = (r \<noteq> 0)"
| "truthy (PStr s) = (s \<noteq> [])"
| "truthy (PList xs) = (xs \<noteq> [])"
| "truthy (PDict kvs) = (kvs \<noteq> [])"

text \<open>\<^verbatim>\<open>isinstance(x, dict)\<close>.\<close>

fun is_dict :: "pyval \<Rightarrow> bool" where
  "is_dict (PDict kvs) = True"
| "is_dict v = False"

text \<open>
  \<^verbatim>\<open>x.get(key, default)\<close>: only a dictionary has the method; on any other value the
  attribute lookup raises \<^verbatim>\<open>AttributeError\<close>. The default is returned for an absent key
  only: a key bound to \<^verbatim>\<open>None\<close> yields \<^verbatim>\<open>None\<close>.
\<close>

fun py_get :: "pyval \<Rightarrow> string \<Rightarrow> pyval \<Rightarrow> exn + pyval" where
  "py_get (PDict kvs) k d = Inr (case map_of kvs k of None \<Rightarrow> d | Some v \<Rightarrow> v)"
| "py_get v k d = Inl AttributeError"

text \<open>\<^verbatim>\<open>key in x\<close> for a dictionary \<^verbatim>\<open>x\<close> (the source applies it to dictionaries only).\<close>

fun py_has_key :: "pyval \<Rightarrow> string \<Rightarrow> bool" where
  "py_has_key (PDict kvs) k = (map_of kvs k \<noteq> None)"
| "py_has_key v k = False"

text \<open>
  \<^verbatim>\<open>for x in v\<close>: a list yields its elements, a string its characters, a dictionary its
  keys; \<^verbatim>\<open>None\<close>, booleans and numbers are not iterable (\<^verbatim>\<open>TypeError\<close>).
\<close>

fun py_iter :: "pyval \<Rightarrow> exn + pyval list" where
  "py_iter (PList xs) = Inr xs"
| "py_iter (PStr s) = Inr (map (\<lambda>ch. PStr [ch]) s)"
| "py_iter (PDict kvs) = Inr (map (\<lambda>kv. PStr (fst kv)) kvs)"
| "py_iter v = Inl TypeError"

fun is_str :: "pyval \<Rightarrow> bool" where
  "is_str (PStr s) = True"
| "is_str v = False"

fun str_of :: "pyval \<Rightarrow> string" where
  "str_of (PStr s) = s"
| "str_of v = []"

fun intersperse :: "string \<Rightarrow> string list \<Rightarrow> string" where
  "intersperse sep [] = []"
| "intersperse sep [s] = s"
| "intersperse sep (s # t # ss) = s @ sep @ intersperse sep (t # ss)"

text \<open>\<^verbatim>\<open>sep.join(items)\<close>: every item has to be a string, otherwise \<^verbatim>\<open>TypeError\<close>.\<close>

definition py_join :: "string \<Rightarrow> pyval list \<Rightarrow> exn + string" where
  "py_join sep vs =
     (if list_all is_str vs then Inr (intersperse sep (map str_of vs)) else Inl TypeError)"

section \<open>Effects: the run's observable events\<close>

text \<open>
  The code prints log lines, calls the lyrics provider and sleeps. A computation is
  modelled by the events it produces, in order, together with its exit: an exception
  (\<open>Inl\<close>) or a returned value (\<open>Inr\<close>). A log line is recorded by the data it is
  formatted from.
\<close>

datatype event =
    LyricsSearch pyval string
  | LogLyricsError pyval string exn
  | LogTrackError exn
  | LogProcessed nat
  | Sleep nat
  | LogCollecting string
  | LogFound nat
  | LogSaved string

type_synonym 'a eff = "event list \<times> (exn + 'a)"

definition ret :: "'a \<Rightarrow> 'a eff" where
  "ret x = ([], Inr x)"

definition lift :: "exn + 'a \<Rightarrow> 'a eff" where
  "lift r = ([], r)"

definition emit :: "event \<Rightarrow> unit eff" where
  "emit ev = ([ev], Inr ())"

text \<open>Sequencing: an exception of the first computation skips the second.\<close>

definition bind :: "'a eff \<Rightarrow> ('a \<Rightarrow> 'b eff) \<Rightarrow> 'b eff" where
  "bind m f =
     (case m of
        (es, Inl e) \<Rightarrow> (es, Inl e)
      | (es, Inr x) \<Rightarrow> (case f x of (es', r) \<Rightarrow> (es @ es', r)))"

text \<open>\<^verbatim>\<open>try: m  except Exception as e: h(e)\<close>.\<close>

definition try_except :: "'a eff \<Rightarrow> (exn \<Rightarrow> 'a eff) \<Rightarrow> 'a eff" where
  "try_except m h =
     (case m of
        (es, Inl e) \<Rightarrow> (case h e of (es', r) \<Rightarrow> (es @ es', r))
      | (es, Inr x) \<Rightarrow> (es, Inr x))"

section \<open>The collector and its two providers\<close>

text \<open>
  One response page of the playlist provider: \<^verbatim>\<open>results['items']\<close> and
  \<^verbatim>\<open>results['next']\<close> (the next page's address, or \<^verbatim>\<open>None\<close>).
\<close>

record page =
  items :: "pyval list"
  next_url :: "string option"

text \<open>A song object returned by the lyrics provider; \<^verbatim>\<open>song.lyrics\<close> is its text.\<close>

datatype song = Song (lyrics: string)

text \<open>
  \<^verbatim>\<open>SpotifyDataCollector\<close> holds the two clients. Each client call either raises or
  returns: \<^verbatim>\<open>self.sp.playlist_tracks(playlist_id)\<close>, \<^verbatim>\<open>self.sp.next(results)\<close> and
  \<^verbatim>\<open>self.genius.search_song(track_name, artist=artist_name)\<close>, which returns a song or
  \<^verbatim>\<open>None\<close>.
\<close>

record collector =
  sp_playlist_tracks :: "string \<Rightarrow> exn + page"
  sp_next :: "page \<Rightarrow> exn + page"
  genius_search_song :: "pyval \<Rightarrow> string \<Rightarrow> exn + song option"

subsection \<open>\<^verbatim>\<open>get_lyrics\<close>\<close>

definition get_lyrics :: "collector \<Rightarrow> string \<Rightarrow> pyval \<Rightarrow> pyval eff" where
  "get_lyrics c artist_name track_name =
     try_except
       (bind (emit (LyricsSearch track_name artist_name)) (\<lambda>_.
        bind (lift (genius_search_song c track_name artist_name)) (\<lambda>song.
          case song of
            Some s \<Rightarrow> ret (PStr (lyrics s))
          | None \<Rightarrow> ret PNone)))
       (\<lambda>e. bind (emit (LogLyricsError track_name artist_name e)) (\<lambda>_. ret PNone))"

subsection \<open>\<^verbatim>\<open>get_track_data\<close>\<close>

text \<open>
  \<^verbatim>\<open>', '.join([artist.get('name', 'Unknown Artist') for artist in artists
               if isinstance(artist, dict)])\<close>
\<close>

definition artist_names_of :: "pyval \<Rightarrow> exn + string" where
  "artist_names_of artists =
     (case py_iter artists of
        Inl e \<Rightarrow> Inl e
      | Inr xs \<Rightarrow>
          py_join '', ''
            (map (\<lambda>artist. case py_get artist ''name'' (PStr ''Unknown Artist'') of
                              Inr v \<Rightarrow> v | Inl e \<Rightarrow> PNone)
                 (filter is_dict xs)))"

text \<open>
  \<^verbatim>\<open>', '.join([artist.get('id', 'Unknown ID') for artist in artists
               if isinstance(artist, dict) and 'id' in artist])\<close>
\<close>

definition artist_ids_of :: "pyval \<Rightarrow> exn + string" where
  "artist_ids_of artists =
     (case py_iter artists of
        Inl e \<Rightarrow> Inl e
      | Inr xs \<Rightarrow>
          py_join '', ''
            (map (\<lambda>artist. case py_get artist ''id'' (PStr ''Unknown ID'') of
                              Inr v \<Rightarrow> v | Inl e \<Rightarrow> PNone)
                 (filter (\<lambda>artist. is_dict artist \<and> py_has_key artist ''id'') xs)))"

text \<open>\<^verbatim>\<open>album.get(key, default) if album else default\<close>.\<close>

definition album_field :: "pyval \<Rightarrow> string \<Rightarrow> pyval \<Rightarrow> exn + pyval" where
  "album_field album k d = (if truthy album then py_get album k d else Inr d)"

text \<open>The body of the \<^verbatim>\<open>try\<close> block, lines 87 to 118 of the source.\<close>

definition extract_track :: "collector \<Rightarrow> pyval \<Rightarrow> pyval eff" where
  "extract_track c track =
     bind (lift (py_get track ''id'' PNone)) (\<lambda>track_id.
     if \<not> truthy track_id then ret PNone else
     bind (lift (py_get track ''artists'' (PList []))) (\<lambda>artists.
     bind (lift (artist_names_of artists)) (\<lambda>artist_names.
     bind (lift (artist_ids_of artists)) (\<lambda>artist_ids.
     bind (lift (py_get track ''name'' (PStr ''Unknown Track''))) (\<lambda>track_name.
     bind (lift (py_get track ''album'' (PDict []))) (\<lambda>album.
     bind (lift (py_get track ''popularity'' (PInt 0))) (\<lambda>popularity.
     bind (lift (py_get track ''explicit'' (PBool False))) (\<lambda>explicit.
     bind (lift (py_get track ''duration_ms'' (PInt 0))) (\<lambda>duration_ms.
     bind (lift (album_field album ''name'' (PStr ''Unknown Album''))) (\<lambda>album_name.
     bind (lift (album_field album ''release_date'' (PStr ''Unknown Date''))) (\<lambda>album_release_date.
     let track_data =
           [(''id'', track_id),
            (''name'', track_name),
            (''popularity'', popularity),
            (''explicit'', explicit),
            (''duration_ms'', duration_ms),
            (''album_name'', album_name),
            (''album_release_date'', album_release_date),
            (''artist_names'', PStr artist_names),
            (''artist_ids'', PStr artist_ids)]
     in
       if artist_names \<noteq> [] \<and> track_name \<noteq> PStr ''Unknown Track'' then
         bind (get_lyrics c artist_names track_name) (\<lambda>lyrics.
           ret (PDict (track_data @ [(''lyrics'', lyrics)])))
       else
         ret (PDict (track_data @ [(''lyrics'', PNone)])))))))))))))"

definition get_track_data :: "collector \<Rightarrow> pyval \<Rightarrow> pyval eff" where
  "get_track_data c track_item =
     bind (lift (py_get track_item ''track'' PNone)) (\<lambda>track.
     if \<not> truthy track then ret PNone else
     try_except (extract_track c track)
       (\<lambda>e. bind (emit (LogTrackError e)) (\<lambda>_. ret PNone)))"

subsection \<open>\<^verbatim>\<open>get_playlist_tracks\<close>\<close>

text \<open>\<^verbatim>\<open>while results['next']\<close>: the pointer is followed while it is a non-empty string.\<close>

definition has_next :: "page \<Rightarrow> bool" where
  "has_next results = (case next_url results of None \<Rightarrow> False | Some u \<Rightarrow> u \<noteq> [])"

text \<open>
  The \<^verbatim>\<open>while\<close> loop of \<^verbatim>\<open>get_playlist_tracks\<close>. Nothing bounds the number of pages
  a provider may chain, so the loop is a partial function: \<open>None\<close> is a run that never
  leaves the loop, \<open>Some (Inl e)\<close> a run that a client exception ends.
\<close>

partial_function (option) walk_pages ::
    "collector \<Rightarrow> page \<Rightarrow> pyval list \<Rightarrow> (exn + pyval list) option" where
  "walk_pages c results tracks =
     (if has_next results then
        (case sp_next c results of
           Inl e \<Rightarrow> Some (Inl e)
         | Inr results' \<Rightarrow> walk_pages c results' (tracks @ items results'))
      else Some (Inr tracks))"

declare walk_pages.simps [code]

definition get_playlist_tracks :: "collector \<Rightarrow> string \<Rightarrow> (exn + pyval list) option" where
  "get_playlist_tracks c playlist_id =
     (case sp_playlist_tracks c playlist_id of
        Inl e \<Rightarrow> Some (Inl e)
      | Inr results \<Rightarrow> walk_pages c results (items results))"

subsection \<open>The \<^verbatim>\<open>for\<close> loop of \<^verbatim>\<open>collect_playlist_data\<close>\<close>

text \<open>\<^verbatim>\<open>if i % 20 == 0 and i > 0: print(...); time.sleep(2)\<close>.\<close>

definition throttle :: "nat \<Rightarrow> unit eff" where
  "throttle i =
     (if i mod 20 = 0 \<and> i > 0 then bind (emit (LogProcessed i)) (\<lambda>_. emit (Sleep 2))
      else ret ())"

text \<open>
  \<^verbatim>\<open>for i, track_item in enumerate(tracks)\<close>, from index \<open>i\<close> on, with the accumulator
  \<^verbatim>\<open>all_track_data\<close>.
\<close>

fun enrich_loop :: "collector \<Rightarrow> nat \<Rightarrow> pyval list \<Rightarrow> pyval list \<Rightarrow> (pyval list) eff" where
  "enrich_loop c i [] all_track_data = ret all_track_data"
| "enrich_loop c i (track_item # rest) all_track_data =
     bind (get_track_data c track_item) (\<lambda>track_data.
     bind (throttle i) (\<lambda>_.
       enrich_loop c (Suc i) rest
         (if truthy track_data then all_track_data @ [track_data] else all_track_data)))"

section \<open>The file system, as far as the write step uses it\<close>

text \<open>A data frame built from a list of row dictionaries, one row per dictionary.\<close>

datatype dataframe = DataFrame (rows: "pyval list")

text \<open>
  The directories and files that exist, each under the path it is spelled with. The
  empty path names nothing. A relative path without a directory part lies in the
  current directory, which exists.
\<close>

record filesystem =
  dirs :: "string list"
  files :: "(string \<times> dataframe) list"

text \<open>
  \<^verbatim>\<open>posixpath.split\<close>: the tail is what follows the last slash; the head is what
  precedes it, without trailing slashes unless it consists of slashes only.
\<close>

definition rstrip_sep :: "string \<Rightarrow> string" where
  "rstrip_sep p = rev (dropWhile (\<lambda>ch. ch = CHR ''/'') (rev p))"

definition path_split :: "string \<Rightarrow> string \<times> string" where
  "path_split p =
     (let tail = rev (takeWhile (\<lambda>ch. ch \<noteq> CHR ''/'') (rev p));
          head = rev (dropWhile (\<lambda>ch. ch \<noteq> CHR ''/'') (rev p))
      in (if head \<noteq> [] \<and> \<not> list_all (\<lambda>ch. ch = CHR ''/'') head then rstrip_sep head
          else head,
          tail))"

text \<open>\<^verbatim>\<open>os.path.dirname\<close> is the head of \<^verbatim>\<open>split\<close>.\<close>

definition dirname :: "string \<Rightarrow> string" where
  "dirname p = fst (path_split p)"

definition isdir :: "filesystem \<Rightarrow> string \<Rightarrow> bool" where
  "isdir fs p = (p \<noteq> [] \<and> p \<in> set (dirs fs))"

definition path_exists :: "filesystem \<Rightarrow> string \<Rightarrow> bool" where
  "path_exists fs p = (p \<noteq> [] \<and> (p \<in> set (dirs fs) \<or> p \<in> fst ` set (files fs)))"

text \<open>
  \<^verbatim>\<open>os.mkdir\<close>: the empty path does not exist (\<^verbatim>\<open>ENOENT\<close>), an existing path is not
  created again (\<^verbatim>\<open>EEXIST\<close>), and the parent has to be a directory.
\<close>

definition mkdir :: "filesystem \<Rightarrow> string \<Rightarrow> exn + filesystem" where
  "mkdir fs p =
     (if p = [] then Inl FileNotFoundError
      else if path_exists fs p then Inl FileExistsError
      else if dirname p \<noteq> [] \<and> \<not> isdir fs (dirname p) then
        (if path_exists fs (dirname p) then Inl NotADirectoryError else Inl FileNotFoundError)
      else Inr (fs\<lparr>dirs := p # dirs fs\<rparr>))"

text \<open>
  The head and tail \<^verbatim>\<open>os.makedirs\<close> works with: \<^verbatim>\<open>head, tail = path.split(name)\<close>, and
  \<^verbatim>\<open>if not tail: head, tail = path.split(head)\<close>.
\<close>

definition makedirs_split :: "string \<Rightarrow> string \<times> string" where
  "makedirs_split name =
     (if snd (path_split name) = [] then path_split (fst (path_split name))
      else path_split name)"

text \<open>
  The final \<^verbatim>\<open>mkdir\<close> of \<^verbatim>\<open>os.makedirs(name, exist_ok=True)\<close>: its error is swallowed
  only when the path is a directory already.
\<close>

definition mkdir_exist_ok :: "filesystem \<Rightarrow> string \<Rightarrow> exn + filesystem" where
  "mkdir_exist_ok fs name =
     (case mkdir fs name of
        Inl e \<Rightarrow> (if isdir fs name then Inr fs else Inl e)
      | Inr fs' \<Rightarrow> Inr fs')"

text \<open>
  \<^verbatim>\<open>os.makedirs(name, exist_ok=True)\<close>: when the head is missing it is made first
  (a \<^verbatim>\<open>FileExistsError\<close> of that call is passed over), and a tail \<^verbatim>\<open>.\<close> ends the call
  there; then the leaf is made.
\<close>

function makedirs :: "filesystem \<Rightarrow> string \<Rightarrow> exn + filesystem" where
  "makedirs fs name =
     (if fst (makedirs_split name) \<noteq> [] \<and> snd (makedirs_split name) \<noteq> []
         \<and> \<not> path_exists fs (fst (makedirs_split name)) then
        (case makedirs fs (fst (makedirs_split name)) of
           Inl e \<Rightarrow>
             (if e = FileExistsError then
                (if snd (makedirs_split name) = ''.'' then Inr fs else mkdir_exist_ok fs name)
              else Inl e)
         | Inr fs' \<Rightarrow>
             (if snd (makedirs_split name) = ''.'' then Inr fs' else mkdir_exist_ok fs' name))
      else mkdir_exist_ok fs name)"
  by pat_completeness auto
termination
proof (relation "measure (\<lambda>(fs, name). length name)")
  show "wf (measure (\<lambda>(fs :: filesystem, name :: string). length name))"
    by simp
next
  fix fs :: filesystem and name :: string
  assume "fst (makedirs_split name) \<noteq> [] \<and> snd (makedirs_split name) \<noteq> []
            \<and> \<not> path_exists fs (fst (makedirs_split name))"
  then have t: "snd (makedirs_split name) \<noteq> []"
    by simp
  have strip: "length (rstrip_sep h) \<le> length h" for h
    using length_dropWhile_le [of "\<lambda>ch. ch = CHR ''/''" "rev h"] by (simp add: rstrip_sep_def)
  have parts: "length (takeWhile P (rev p)) + length (dropWhile P (rev p)) = length p"
    for P and p :: string
    by (metis length_append length_rev takeWhile_dropWhile_id)
  have split_length: "length (fst (path_split p)) + length (snd (path_split p)) \<le> length p"
    for p
    using strip [of "rev (dropWhile (\<lambda>ch. ch \<noteq> CHR ''/'') (rev p))"]
          parts [of "\<lambda>ch. ch \<noteq> CHR ''/''" p]
    by (simp add: path_split_def Let_def)
  have "length (fst (makedirs_split name)) < length name"
  proof (cases "snd (path_split name) = []")
    case True
    then have eq: "makedirs_split name = path_split (fst (path_split name))"
      by (simp add: makedirs_split_def)
    from t eq have "0 < length (snd (path_split (fst (path_split name))))"
      by simp
    with split_length [of name] split_length [of "fst (path_split name)"]
    have "length (fst (path_split (fst (path_split name)))) < length name"
      by linarith
    with eq show ?thesis by simp
  next
    case False
    then have eq: "makedirs_split name = path_split name"
      by (simp add: makedirs_split_def)
    from False have "0 < length (snd (path_split name))"
      by simp
    with split_length [of name] have "length (fst (path_split name)) < length name"
      by linarith
    with eq show ?thesis by simp
  qed
  then show "((fs, fst (makedirs_split name)), (fs, name))
               \<in> measure (\<lambda>(fs, name). length name)"
    by simp
qed

declare makedirs.simps [simp del]

text \<open>
  Opening a path for writing: the path must not be empty nor a directory, and its
  directory part, when it has one, has to be a directory.
\<close>

definition open_for_write :: "filesystem \<Rightarrow> string \<Rightarrow> exn + unit" where
  "open_for_write fs path =
     (if path = [] then Inl FileNotFoundError
      else if dirname path \<noteq> [] \<and> \<not> isdir fs (dirname path) then
        (if path_exists fs (dirname path) then Inl NotADirectoryError else Inl FileNotFoundError)
      else if isdir fs path \<or> snd (path_split path) = [] then Inl IsADirectoryError
      else Inr ())"

text \<open>
  \<^verbatim>\<open>df.to_csv(output_file, index=False)\<close> opens the path for writing; the file then
  holds the data frame.
\<close>

definition to_csv :: "filesystem \<Rightarrow> string \<Rightarrow> dataframe \<Rightarrow> exn + filesystem" where
  "to_csv fs path df =
     (case open_for_write fs path of
        Inl e \<Rightarrow> Inl e
      | Inr _ \<Rightarrow> Inr (fs\<lparr>files := (path, df) # filter (\<lambda>f. fst f \<noteq> path) (files fs)\<rparr>))"

section \<open>\<^verbatim>\<open>collect_playlist_data\<close>\<close>

text \<open>
  A run ends with the events it produced, the file system it leaves and its exit:
  an exception or the returned data frame. \<open>None\<close> is a run that never leaves the
  pagination loop.
\<close>

definition collect_playlist_data ::
    "collector \<Rightarrow> filesystem \<Rightarrow> string \<Rightarrow> string
       \<Rightarrow> (event list \<times> filesystem \<times> (exn + dataframe)) option" where
  "collect_playlist_data c fs playlist_id output_file =
     (case get_playlist_tracks c playlist_id of
        None \<Rightarrow> None
      | Some (Inl e) \<Rightarrow> Some ([LogCollecting playlist_id], fs, Inl e)
      | Some (Inr tracks) \<Rightarrow>
          (case enrich_loop c 0 tracks [] of
             (evs, Inl e) \<Rightarrow>
               Some (LogCollecting playlist_id # LogFound (length tracks) # evs, fs, Inl e)
           | (evs, Inr all_track_data) \<Rightarrow>
               (let df = DataFrame all_track_data;
                    log = LogCollecting playlist_id # LogFound (length tracks) # evs
                in case makedirs fs (dirname output_file) of
                     Inl e \<Rightarrow> Some (log, fs, Inl e)
                   | Inr fs1 \<Rightarrow>
                       (case to_csv fs1 output_file df of
                          Inl e \<Rightarrow> Some (log, fs1, Inl e)
                        | Inr fs2 \<Rightarrow> Some (log @ [LogSaved output_file], fs2, Inr df)))))"

section \<open>Notions the properties are stated with\<close>

text \<open>The source field \<open>k\<close> of a dictionary, or \<open>d\<close> when the key is absent.\<close>

fun field_or :: "pyval \<Rightarrow> string \<Rightarrow> pyval \<Rightarrow> pyval" where
  "field_or (PDict kvs) k d = (case map_of kvs k of None \<Rightarrow> d | Some v \<Rightarrow> v)"
| "field_or v k d = d"

text \<open>The track payload an entry wraps (\<^verbatim>\<open>None\<close> when it wraps none).\<close>

definition track_of :: "pyval \<Rightarrow> pyval" where
  "track_of track_item = field_or track_item ''track'' PNone"

text \<open>An entry with a valid id: its payload is a track record with a non-empty identifier.\<close>

definition valid_id :: "pyval \<Rightarrow> bool" where
  "valid_id track_item = (is_dict (track_of track_item) \<and> truthy (field_or (track_of track_item) ''id'' PNone))"

text \<open>An entry with a valid id whose field extraction raises no exception.\<close>

definition extraction_ok :: "collector \<Rightarrow> pyval \<Rightarrow> bool" where
  "extraction_ok c track_item =
     (valid_id track_item \<and>
      (case snd (extract_track c (track_of track_item)) of Inl e \<Rightarrow> False | Inr v \<Rightarrow> True))"

text \<open>The calls to the lyrics provider in a run: title and artist hint, in order.\<close>

fun lyrics_calls :: "event list \<Rightarrow> (pyval \<times> string) list" where
  "lyrics_calls [] = []"
| "lyrics_calls (LyricsSearch t a # es) = (t, a) # lyrics_calls es"
| "lyrics_calls (ev # es) = lyrics_calls es"


text \<open>What an entry contributes to a run that is not aborted: its events and its value.\<close>

definition entry_record :: "collector \<Rightarrow> pyval \<Rightarrow> pyval" where
  "entry_record c track_item =
     (case snd (get_track_data c track_item) of Inl e \<Rightarrow> PNone | Inr v \<Rightarrow> v)"

fun loop_events :: "collector \<Rightarrow> nat \<Rightarrow> pyval list \<Rightarrow> event list" where
  "loop_events c i [] = []"
| "loop_events c i (track_item # rest) =
     fst (get_track_data c track_item) @ fst (throttle i) @ loop_events c (Suc i) rest"

definition loop_rows :: "collector \<Rightarrow> pyval list \<Rightarrow> pyval list" where
  "loop_rows c tracks = filter truthy (map (entry_record c) tracks)"

text \<open>
  The pages the walker visits, in arrival order, told by the pointers alone: every
  page but the last carries a next-page pointer (a non-empty address), which the
  provider answers with the page that follows; the last page carries none (\<^verbatim>\<open>None\<close>, or
  an empty address).
\<close>

fun page_chain :: "collector \<Rightarrow> page list \<Rightarrow> bool" where
  "page_chain c [] = False"
| "page_chain c [p] = (next_url p = None \<or> next_url p = Some [])"
| "page_chain c (p # q # ps) =
     (next_url p \<noteq> None \<and> next_url p \<noteq> Some [] \<and> sp_next c p = Inr q
        \<and> page_chain c (q # ps))"

section \<open>Test doubles for the providers\<close>

text \<open>
  A playlist provider serving the given pages, page \<open>i\<close> pointing to page \<open>i + 1\<close>, and a
  lyrics provider that finds every song but two: one title has no match, one title makes
  the provider fail.
\<close>

definition page_at :: "pyval list list \<Rightarrow> nat \<Rightarrow> page" where
  "page_at pages i =
     \<lparr>items = pages ! i,
      next_url = (if Suc i < length pages then Some (replicate (Suc i) CHR ''n'') else None)\<rparr>"

definition demo_search :: "pyval \<Rightarrow> string \<Rightarrow> exn + song option" where
  "demo_search title artist =
     (if title = PStr ''No Match'' then Inr None
      else if title = PStr ''Timeout'' then Inl (ProviderError ''timeout'')
      else Inr (Some (Song ''la la la'')))"

definition demo_next :: "pyval list list \<Rightarrow> page \<Rightarrow> exn + page" where
  "demo_next pages results =
     (case next_url results of
        None \<Rightarrow> Inl TypeError
      | Some u \<Rightarrow>
          (if length u < length pages then Inr (page_at pages (length u))
           else Inl (ProviderError ''not found'')))"

definition demo_first :: "pyval list list \<Rightarrow> string \<Rightarrow> exn + page" where
  "demo_first pages playlist_id =
     (if pages = [] then Inl (ProviderError ''not found'') else Inr (page_at pages 0))"

definition demo_collector :: "pyval list list \<Rightarrow> collector" where
  "demo_collector pages =
     \<lparr>sp_playlist_tracks = demo_first pages,
      sp_next = demo_next pages,
      genius_search_song = demo_search\<rparr>"

definition demo_fs :: filesystem where
  "demo_fs = \<lparr>dirs = [''/''], files = []\<rparr>"

text \<open>An entry wrapping the given track payload.\<close>

definition entry :: "pyval \<Rightarrow> pyval" where
  "entry track = PDict [(''track'', track)]"

text \<open>A well-formed track with one artist.\<close>

definition demo_track :: "string \<Rightarrow> string \<Rightarrow> pyval" where
  "demo_track track_id title =
     PDict [(''id'', PStr track_id), (''name'', PStr title),
            (''artists'', PList [PDict [(''id'', PStr ''a1''), (''name'', PStr ''Ann'')]])]"

text \<open>The nine fields a record holds before the lyrics are added.\<close>

definition base_record :: "pyval \<Rightarrow> string \<Rightarrow> string \<Rightarrow> pyval \<Rightarrow> pyval \<Rightarrow> (string \<times> pyval) list" where
  "base_record track artist_names artist_ids album_name album_release_date =
     [(''id'', field_or track ''id'' PNone),
      (''name'', field_or track ''name'' (PStr ''Unknown Track'')),
      (''popularity'', field_or track ''popularity'' (PInt 0)),
      (''explicit'', field_or track ''explicit'' (PBool False)),
      (''duration_ms'', field_or track ''duration_ms'' (PInt 0)),
      (''album_name'', album_name),
      (''album_release_date'', album_release_date),
      (''artist_names'', PStr artist_names),
      (''artist_ids'', PStr artist_ids)]"

text \<open>The name an artist record contributes to the joined artist names.\<close>

definition name_of_artist :: "pyval \<Rightarrow> pyval" where
  "name_of_artist artist = field_or artist ''name'' (PStr ''Unknown Artist'')"




text \<open>
  A playlist with a well-formed track, an entry without a track, a track whose artist
  list is \<^verbatim>\<open>None\<close>, and a track the lyrics provider has no match for.
\<close>

definition mixed_playlist :: "pyval list" where
  "mixed_playlist =
     [entry (demo_track ''t1'' ''Song''),
      entry PNone,
      entry (PDict [(''id'', PStr ''t3''), (''artists'', PNone)]),
      entry (demo_track ''t4'' ''No Match'')]"


text \<open>A playlist whose second entry is \<^verbatim>\<open>None\<close> instead of a record.\<close>

definition broken_playlist :: "pyval list" where
  "broken_playlist = [entry (demo_track ''t1'' ''Song''), PNone, entry (demo_track ''t4'' ''Song'')]"

text \<open>The record of the well-formed demo track.\<close>

definition demo_record :: "string \<Rightarrow> string \<Rightarrow> pyval \<Rightarrow> pyval" where
  "demo_record track_id title lyr =
     PDict [(''id'', PStr track_id), (''name'', PStr title), (''popularity'', PInt 0),
            (''explicit'', PBool False), (''duration_ms'', PInt 0),
            (''album_name'', PStr ''Unknown Album''),
            (''album_release_date'', PStr ''Unknown Date''),
            (''artist_names'', PStr ''Ann''), (''artist_ids'', PStr ''a1''),
            (''lyrics'', lyr)]"

text \<open>Two pages of opaque entries.\<close>

definition two_pages :: "pyval list list" where
  "two_pages = [PStr ''a'', PStr ''b''] # [PStr ''c''] # []"

section \<open>Sequencing\<close>

lemma bind_Inr [simp]: "bind (es, Inr x) f = (es @ fst (f x), snd (f x))"
  by (simp add: bind_def split: prod.splits)

lemma bind_Inl [simp]: "bind (es, Inl e) f = (es, Inl e)"
  by (simp add: bind_def)

lemma bind_lift_Inr [simp]: "bind (lift (Inr x)) f = f x"
  by (simp add: bind_def lift_def split: prod.splits)

lemma bind_lift_Inl [simp]: "bind (lift (Inl e)) f = ([], Inl e)"
  by (simp add: bind_def lift_def)

lemma bind_ret [simp]: "bind (ret x) f = f x"
  by (simp add: bind_def ret_def split: prod.splits)

lemma bind_emit [simp]: "bind (emit ev) f = (ev # fst (f ()), snd (f ()))"
  by (simp add: bind_def emit_def split: prod.splits)

section \<open>The lyrics fetcher\<close>

lemma get_lyrics_eq:
  "get_lyrics c artist_name track_name =
     (case genius_search_song c track_name artist_name of
        Inl e \<Rightarrow>
          ([LyricsSearch track_name artist_name, LogLyricsError track_name artist_name e],
           Inr PNone)
      | Inr None \<Rightarrow> ([LyricsSearch track_name artist_name], Inr PNone)
      | Inr (Some s) \<Rightarrow> ([LyricsSearch track_name artist_name], Inr (PStr (lyrics s))))"
  by (simp add: get_lyrics_def try_except_def ret_def split: sum.splits option.splits)

text \<open>
  C7. \<^verbatim>\<open>get_lyrics\<close> never raises: it returns the text of the song the provider's search
  found, \<^verbatim>\<open>None\<close> when the search found no song, and \<^verbatim>\<open>None\<close>, after a log line, when
  the provider raised; each time after exactly one search.
\<close>

theorem get_lyrics_best_effort:
  "get_lyrics c artist_name track_name =
     (case genius_search_song c track_name artist_name of
        Inr (Some s) \<Rightarrow> ([LyricsSearch track_name artist_name], Inr (PStr (lyrics s)))
      | Inr None \<Rightarrow> ([LyricsSearch track_name artist_name], Inr PNone)
      | Inl e \<Rightarrow>
          ([LyricsSearch track_name artist_name, LogLyricsError track_name artist_name e],
           Inr PNone))
   \<and> (\<exists>es v. get_lyrics c artist_name track_name = (es, Inr v))"
  by (simp add: get_lyrics_eq split: sum.splits option.splits)

theorem get_lyrics_best_effort_witness:
  "get_lyrics (demo_collector []) ''Ann'' (PStr ''Timeout'') =
     ([LyricsSearch (PStr ''Timeout'') ''Ann'',
       LogLyricsError (PStr ''Timeout'') ''Ann'' (ProviderError ''timeout'')], Inr PNone)
   \<and> get_lyrics (demo_collector []) ''Ann'' (PStr ''No Match'') =
     ([LyricsSearch (PStr ''No Match'') ''Ann''], Inr PNone)
   \<and> get_lyrics (demo_collector []) ''Ann'' (PStr ''Song'') =
     ([LyricsSearch (PStr ''Song'') ''Ann''], Inr (PStr ''la la la''))"
  using get_lyrics_best_effort [of "demo_collector []" "''Ann''" "PStr ''Timeout''"]
        get_lyrics_best_effort [of "demo_collector []" "''Ann''" "PStr ''No Match''"]
        get_lyrics_best_effort [of "demo_collector []" "''Ann''" "PStr ''Song''"]
  by (simp add: demo_collector_def demo_search_def)

section \<open>The track enricher\<close>

lemma get_track_data_not_dict:
  "\<not> is_dict track_item \<Longrightarrow> get_track_data c track_item = ([], Inl AttributeError)"
  by (cases track_item) (simp_all add: get_track_data_def)

lemma track_of_dict: "is_dict track_item \<Longrightarrow> py_get track_item ''track'' PNone = Inr (track_of track_item)"
  by (cases track_item) (simp_all add: track_of_def)

lemma get_track_data_entry:
  "is_dict track_item \<Longrightarrow>
   get_track_data c track_item =
     (if \<not> truthy (track_of track_item) then ([], Inr PNone)
      else case extract_track c (track_of track_item) of
             (es, Inl e) \<Rightarrow> (es @ [LogTrackError e], Inr PNone)
           | (es, Inr v) \<Rightarrow> (es, Inr v))"
  by (simp add: get_track_data_def track_of_dict try_except_def ret_def split: prod.splits sum.splits)

lemma extract_track_not_dict:
  "\<not> is_dict track \<Longrightarrow> extract_track c track = ([], Inl AttributeError)"
  by (cases track) (simp_all add: extract_track_def)

lemma get_lyrics_returns:
  "\<exists>v. get_lyrics c artist_name track_name = (fst (get_lyrics c artist_name track_name), Inr v)
       \<and> lyrics_calls (fst (get_lyrics c artist_name track_name)) = [(track_name, artist_name)]"
  by (simp add: get_lyrics_eq split: sum.splits option.splits)

lemma py_get_field_or: "is_dict v \<Longrightarrow> py_get v k d = Inr (field_or v k d)"
  by (cases v) simp_all

lemma extract_track_dict:
  "is_dict track \<Longrightarrow>
   extract_track c track =
     (if \<not> truthy (field_or track ''id'' PNone) then ([], Inr PNone)
      else case artist_names_of (field_or track ''artists'' (PList [])) of
        Inl e \<Rightarrow> ([], Inl e)
      | Inr an \<Rightarrow>
      (case artist_ids_of (field_or track ''artists'' (PList [])) of
        Inl e \<Rightarrow> ([], Inl e)
      | Inr ai \<Rightarrow>
      (case album_field (field_or track ''album'' (PDict [])) ''name'' (PStr ''Unknown Album'') of
        Inl e \<Rightarrow> ([], Inl e)
      | Inr aname \<Rightarrow>
      (case album_field (field_or track ''album'' (PDict [])) ''release_date'' (PStr ''Unknown Date'') of
        Inl e \<Rightarrow> ([], Inl e)
      | Inr adate \<Rightarrow>
         (if an \<noteq> [] \<and> field_or track ''name'' (PStr ''Unknown Track'') \<noteq> PStr ''Unknown Track'' then
            bind (get_lyrics c an (field_or track ''name'' (PStr ''Unknown Track''))) (\<lambda>lyrics.
              ret (PDict (base_record track an ai aname adate @ [(''lyrics'', lyrics)])))
          else ([], Inr (PDict (base_record track an ai aname adate @ [(''lyrics'', PNone)]))))))))"
  by (simp add: extract_track_def py_get_field_or base_record_def ret_def split: sum.splits)

lemma extract_track_record:
  assumes "extract_track c track = (es, Inr (PDict r))"
  shows "\<exists>an ai aname adate lyr.
           is_dict track \<and> truthy (field_or track ''id'' PNone)
         \<and> artist_names_of (field_or track ''artists'' (PList [])) = Inr an
         \<and> artist_ids_of (field_or track ''artists'' (PList [])) = Inr ai
         \<and> album_field (field_or track ''album'' (PDict [])) ''name'' (PStr ''Unknown Album'') = Inr aname
         \<and> album_field (field_or track ''album'' (PDict [])) ''release_date'' (PStr ''Unknown Date'') = Inr adate
         \<and> r = base_record track an ai aname adate @ [(''lyrics'', lyr)]
         \<and> (if an \<noteq> [] \<and> field_or track ''name'' (PStr ''Unknown Track'') \<noteq> PStr ''Unknown Track''
             then get_lyrics c an (field_or track ''name'' (PStr ''Unknown Track'')) = (es, Inr lyr)
             else es = [] \<and> lyr = PNone)"
proof -
  have d: "is_dict track"
    using assms extract_track_not_dict [of track c] by (cases "is_dict track") simp_all
  show ?thesis
    using assms d
    by (auto simp: extract_track_dict bind_def ret_def split: if_splits sum.splits prod.splits)
qed


lemma get_lyrics_not_Inl [simp]: "get_lyrics c artist_name track_name \<noteq> (es, Inl e)"
  by (simp add: get_lyrics_eq split: sum.splits option.splits)

lemma extract_track_raises: "extract_track c track = (es, Inl e) \<Longrightarrow> es = []"
proof (cases "is_dict track")
  case False
  assume "extract_track c track = (es, Inl e)"
  with False show ?thesis by (simp add: extract_track_not_dict)
next
  case True
  assume "extract_track c track = (es, Inl e)"
  with True show ?thesis
    by (auto simp: extract_track_dict bind_def ret_def split: if_splits sum.splits prod.splits)
qed

lemma extract_track_value:
  "extract_track c track = (es, Inr v) \<Longrightarrow> (v = PNone \<and> es = []) \<or> (\<exists>r. v = PDict r)"
proof (cases "is_dict track")
  case False
  assume "extract_track c track = (es, Inr v)"
  with False show ?thesis by (simp add: extract_track_not_dict)
next
  case True
  assume "extract_track c track = (es, Inr v)"
  with True show ?thesis
    by (auto simp: extract_track_dict bind_def ret_def split: if_splits sum.splits prod.splits)
qed

lemma get_track_data_record:
  assumes "get_track_data c track_item = (evs, Inr (PDict r))"
  shows "is_dict track_item \<and> extract_track c (track_of track_item) = (evs, Inr (PDict r))"
proof -
  have d: "is_dict track_item"
    using assms get_track_data_not_dict [of track_item c] by (cases "is_dict track_item") simp_all
  with assms show ?thesis
    by (auto simp: get_track_data_entry split: if_splits prod.splits sum.splits)
qed

lemma get_track_data_no_record:
  assumes "get_track_data c track_item = (evs, res)" and "\<forall>r. res \<noteq> Inr (PDict r)"
  shows "lyrics_calls evs = []"
proof (cases "is_dict track_item")
  case False
  with assms show ?thesis by (simp add: get_track_data_not_dict)
next
  case True
  obtain es x where e: "extract_track c (track_of track_item) = (es, x)"
    by (cases "extract_track c (track_of track_item)")
  show ?thesis
  proof (cases x)
    case (Inl err)
    with e have "es = []" using extract_track_raises by simp
    with assms True e Inl show ?thesis
      by (auto simp: get_track_data_entry split: if_splits)
  next
    case (Inr v)
    with e extract_track_value [of c "track_of track_item" es v] assms True show ?thesis
      by (auto simp: get_track_data_entry split: if_splits)
  qed
qed

text \<open>
  C5. Whenever \<^verbatim>\<open>get_track_data\<close> yields a record, the lyrics fetcher is called exactly
  when the record's joined artist names are non-empty and its name differs from
  \<^verbatim>\<open>'Unknown Track'\<close>, once and with these two values; otherwise no call is made and
  the record's lyrics are \<^verbatim>\<open>None\<close>. A run of \<^verbatim>\<open>get_track_data\<close> that yields no record
  makes no call either.
\<close>

theorem lyrics_fetch_gate:
  assumes "get_track_data c track_item = (evs, res)"
  shows "(\<forall>r. res = Inr (PDict r) \<longrightarrow>
            (\<exists>artist_names track_name.
                map_of r ''artist_names'' = Some (PStr artist_names)
              \<and> map_of r ''name'' = Some track_name
              \<and> (if artist_names \<noteq> [] \<and> track_name \<noteq> PStr ''Unknown Track''
                 then lyrics_calls evs = [(track_name, artist_names)]
                 else lyrics_calls evs = [] \<and> map_of r ''lyrics'' = Some PNone)))
       \<and> ((\<forall>r. res \<noteq> Inr (PDict r)) \<longrightarrow> lyrics_calls evs = [])"
proof (intro conjI allI impI)
  fix r assume "res = Inr (PDict r)"
  with assms have "extract_track c (track_of track_item) = (evs, Inr (PDict r))"
    using get_track_data_record by simp
  from extract_track_record [OF this] obtain an ai aname adate lyr where
    r: "r = base_record (track_of track_item) an ai aname adate @ [(''lyrics'', lyr)]" and
    g: "if an \<noteq> [] \<and> field_or (track_of track_item) ''name'' (PStr ''Unknown Track'') \<noteq> PStr ''Unknown Track''
        then get_lyrics c an (field_or (track_of track_item) ''name'' (PStr ''Unknown Track'')) = (evs, Inr lyr)
        else evs = [] \<and> lyr = PNone"
    by blast
  have n: "map_of r ''artist_names'' = Some (PStr an)"
     and t: "map_of r ''name'' = Some (field_or (track_of track_item) ''name'' (PStr ''Unknown Track''))"
    using r by (simp_all add: base_record_def)
  have "if an \<noteq> [] \<and> field_or (track_of track_item) ''name'' (PStr ''Unknown Track'') \<noteq> PStr ''Unknown Track''
        then lyrics_calls evs = [(field_or (track_of track_item) ''name'' (PStr ''Unknown Track''), an)]
        else lyrics_calls evs = [] \<and> map_of r ''lyrics'' = Some PNone"
    using g r get_lyrics_returns [of c an "field_or (track_of track_item) ''name'' (PStr ''Unknown Track'')"]
    by (auto simp: base_record_def split: if_splits)
  with n t show "\<exists>artist_names track_name.
                map_of r ''artist_names'' = Some (PStr artist_names)
              \<and> map_of r ''name'' = Some track_name
              \<and> (if artist_names \<noteq> [] \<and> track_name \<noteq> PStr ''Unknown Track''
                 then lyrics_calls evs = [(track_name, artist_names)]
                 else lyrics_calls evs = [] \<and> map_of r ''lyrics'' = Some PNone)"
    by blast
next
  assume "\<forall>r. res \<noteq> Inr (PDict r)"
  with assms show "lyrics_calls evs = []" by (rule get_track_data_no_record)
qed

theorem lyrics_fetch_gate_witness:
  "get_track_data (demo_collector []) (entry (demo_track ''t1'' ''Song'')) =
     ([LyricsSearch (PStr ''Song'') ''Ann''],
      Inr (PDict [(''id'', PStr ''t1''), (''name'', PStr ''Song''), (''popularity'', PInt 0),
                  (''explicit'', PBool False), (''duration_ms'', PInt 0),
                  (''album_name'', PStr ''Unknown Album''),
                  (''album_release_date'', PStr ''Unknown Date''),
                  (''artist_names'', PStr ''Ann''), (''artist_ids'', PStr ''a1''),
                  (''lyrics'', PStr ''la la la'')]))
   \<and> lyrics_calls [LyricsSearch (PStr ''Song'') ''Ann''] = [(PStr ''Song'', ''Ann'')]
   \<and> get_track_data (demo_collector []) (entry (PDict [(''id'', PStr ''t2''), (''name'', PStr ''Song'')])) =
     ([],
      Inr (PDict [(''id'', PStr ''t2''), (''name'', PStr ''Song''), (''popularity'', PInt 0),
                  (''explicit'', PBool False), (''duration_ms'', PInt 0),
                  (''album_name'', PStr ''Unknown Album''),
                  (''album_release_date'', PStr ''Unknown Date''),
                  (''artist_names'', PStr []), (''artist_ids'', PStr []),
                  (''lyrics'', PNone)]))
   \<and> lyrics_calls [] = []"
proof -
  have a: "get_track_data (demo_collector []) (entry (demo_track ''t1'' ''Song'')) =
     ([LyricsSearch (PStr ''Song'') ''Ann''],
      Inr (PDict [(''id'', PStr ''t1''), (''name'', PStr ''Song''), (''popularity'', PInt 0),
                  (''explicit'', PBool False), (''duration_ms'', PInt 0),
                  (''album_name'', PStr ''Unknown Album''),
                  (''album_release_date'', PStr ''Unknown Date''),
                  (''artist_names'', PStr ''Ann''), (''artist_ids'', PStr ''a1''),
                  (''lyrics'', PStr ''la la la'')]))"
    by (simp add: get_track_data_def extract_track_def artist_names_of_def artist_ids_of_def
          py_join_def album_field_def get_lyrics_eq demo_collector_def demo_search_def
          entry_def demo_track_def try_except_def ret_def)
  have b: "get_track_data (demo_collector []) (entry (PDict [(''id'', PStr ''t2''), (''name'', PStr ''Song'')])) =
     ([],
      Inr (PDict [(''id'', PStr ''t2''), (''name'', PStr ''Song''), (''popularity'', PInt 0),
                  (''explicit'', PBool False), (''duration_ms'', PInt 0),
                  (''album_name'', PStr ''Unknown Album''),
                  (''album_release_date'', PStr ''Unknown Date''),
                  (''artist_names'', PStr []), (''artist_ids'', PStr []),
                  (''lyrics'', PNone)]))"
    by (simp add: get_track_data_def extract_track_def artist_names_of_def artist_ids_of_def
          py_join_def album_field_def entry_def try_except_def ret_def)
  show ?thesis
    using a b lyrics_fetch_gate [OF a] lyrics_fetch_gate [OF b] by simp
qed

lemma album_field_ok:
  "album_field album k d = Inr v \<Longrightarrow> v = (if truthy album then field_or album k d else d)"
  by (cases album) (auto simp: album_field_def split: if_splits)

lemma artist_names_of_iter:
  "py_iter artists = Inr xs \<Longrightarrow>
   artist_names_of artists = py_join '', '' (map name_of_artist (filter is_dict xs))"
proof -
  assume i: "py_iter artists = Inr xs"
  have m: "map (\<lambda>artist. case py_get artist ''name'' (PStr ''Unknown Artist'') of
                            Inr v \<Rightarrow> v | Inl e \<Rightarrow> PNone) (filter is_dict xs)
           = map name_of_artist (filter is_dict xs)"
    by (rule map_cong) (simp_all add: py_get_field_or name_of_artist_def)
  show ?thesis
    by (simp only: artist_names_of_def i sum.case m)
qed

lemma artist_ids_of_no_dict:
  "py_iter artists = Inr xs \<Longrightarrow> filter is_dict xs = [] \<Longrightarrow> artist_ids_of artists = Inr []"
proof -
  assume i: "py_iter artists = Inr xs" and n: "filter is_dict xs = []"
  from n have "filter (\<lambda>artist. is_dict artist \<and> py_has_key artist ''id'') xs = []"
    by (auto simp: filter_empty_conv)
  with i show ?thesis by (simp add: artist_ids_of_def py_join_def)
qed

lemma truthy_id_dict: "valid_id track_item \<Longrightarrow> truthy (track_of track_item)"
  by (cases "track_of track_item") (auto simp: valid_id_def split: option.splits)

text \<open>
  C6 (amended). Every record \<^verbatim>\<open>get_track_data\<close> returns holds the eight base fields.
  A field the track (or its album) lacks takes its default: \<^verbatim>\<open>'Unknown Track'\<close>, 0,
  \<^verbatim>\<open>False\<close>, 0, \<^verbatim>\<open>'Unknown Album'\<close>, \<^verbatim>\<open>'Unknown Date'\<close>, and the empty string for
  both joined artist strings when the track has no artist list. A field the source
  carries is copied as it is, so it is \<^verbatim>\<open>None\<close> in the record when the source gives
  \<^verbatim>\<open>None\<close>; the two joined artist strings are strings always.
\<close>

theorem base_fields_present:
  assumes "get_track_data c track_item = (evs, Inr (PDict r))"
  shows "map_of r ''name'' = Some (field_or (track_of track_item) ''name'' (PStr ''Unknown Track''))
       \<and> map_of r ''popularity'' = Some (field_or (track_of track_item) ''popularity'' (PInt 0))
       \<and> map_of r ''explicit'' = Some (field_or (track_of track_item) ''explicit'' (PBool False))
       \<and> map_of r ''duration_ms'' = Some (field_or (track_of track_item) ''duration_ms'' (PInt 0))
       \<and> map_of r ''album_name'' =
            Some (if truthy (field_or (track_of track_item) ''album'' (PDict []))
                  then field_or (field_or (track_of track_item) ''album'' (PDict [])) ''name''
                         (PStr ''Unknown Album'')
                  else PStr ''Unknown Album'')
       \<and> map_of r ''album_release_date'' =
            Some (if truthy (field_or (track_of track_item) ''album'' (PDict []))
                  then field_or (field_or (track_of track_item) ''album'' (PDict [])) ''release_date''
                         (PStr ''Unknown Date'')
                  else PStr ''Unknown Date'')
       \<and> (\<exists>s. map_of r ''artist_names'' = Some (PStr s))
       \<and> (\<exists>s. map_of r ''artist_ids'' = Some (PStr s))
       \<and> (\<not> py_has_key (track_of track_item) ''artists'' \<longrightarrow>
            map_of r ''artist_names'' = Some (PStr []) \<and> map_of r ''artist_ids'' = Some (PStr []))"
proof -
  from assms have "extract_track c (track_of track_item) = (evs, Inr (PDict r))"
    using get_track_data_record by simp
  from extract_track_record [OF this] obtain an ai aname adate lyr where
    d: "is_dict (track_of track_item)" and
    n: "artist_names_of (field_or (track_of track_item) ''artists'' (PList [])) = Inr an" and
    i: "artist_ids_of (field_or (track_of track_item) ''artists'' (PList [])) = Inr ai" and
    a: "album_field (field_or (track_of track_item) ''album'' (PDict [])) ''name''
          (PStr ''Unknown Album'') = Inr aname" and
    b: "album_field (field_or (track_of track_item) ''album'' (PDict [])) ''release_date''
          (PStr ''Unknown Date'') = Inr adate" and
    r: "r = base_record (track_of track_item) an ai aname adate @ [(''lyrics'', lyr)]"
    by blast
  have absent: "an = [] \<and> ai = []" if "\<not> py_has_key (track_of track_item) ''artists''"
  proof -
    from d that have "field_or (track_of track_item) ''artists'' (PList []) = PList []"
      by (cases "track_of track_item") simp_all
    with n i show ?thesis
      by (simp add: artist_names_of_def artist_ids_of_def py_join_def)
  qed
  show ?thesis
    using r album_field_ok [OF a] album_field_ok [OF b] absent
    by (simp add: base_record_def)
qed

theorem base_fields_present_witness:
  "get_track_data (demo_collector [])
     (entry (PDict [(''id'', PStr ''t1''), (''name'', PStr ''Song''), (''popularity'', PInt 55),
                    (''album'', PDict [(''name'', PStr ''LP'')])])) =
     ([],
      Inr (PDict [(''id'', PStr ''t1''), (''name'', PStr ''Song''), (''popularity'', PInt 55),
                  (''explicit'', PBool False), (''duration_ms'', PInt 0),
                  (''album_name'', PStr ''LP''),
                  (''album_release_date'', PStr ''Unknown Date''),
                  (''artist_names'', PStr []), (''artist_ids'', PStr []),
                  (''lyrics'', PNone)]))
   \<and> field_or (track_of (entry (PDict [(''id'', PStr ''t1''), (''name'', PStr ''Song''),
                 (''popularity'', PInt 55), (''album'', PDict [(''name'', PStr ''LP'')])])))
         ''duration_ms'' (PInt 0) = PInt 0"
proof -
  have a: "get_track_data (demo_collector [])
     (entry (PDict [(''id'', PStr ''t1''), (''name'', PStr ''Song''), (''popularity'', PInt 55),
                    (''album'', PDict [(''name'', PStr ''LP'')])])) =
     ([],
      Inr (PDict [(''id'', PStr ''t1''), (''name'', PStr ''Song''), (''popularity'', PInt 55),
                  (''explicit'', PBool False), (''duration_ms'', PInt 0),
                  (''album_name'', PStr ''LP''),
                  (''album_release_date'', PStr ''Unknown Date''),
                  (''artist_names'', PStr []), (''artist_ids'', PStr []),
                  (''lyrics'', PNone)]))"
    by (simp add: get_track_data_def extract_track_def artist_names_of_def artist_ids_of_def
          py_join_def album_field_def entry_def try_except_def ret_def)
  show ?thesis
    using a base_fields_present [OF a] by simp
qed

text \<open>
  The claim C6 as stated fails: a track whose popularity is \<^verbatim>\<open>None\<close> yields a record
  whose popularity is \<^verbatim>\<open>None\<close>.
\<close>

theorem base_fields_null_counterexample:
  "get_track_data (demo_collector []) (entry (PDict [(''id'', PStr ''t1''), (''popularity'', PNone)])) =
     ([],
      Inr (PDict [(''id'', PStr ''t1''), (''name'', PStr ''Unknown Track''), (''popularity'', PNone),
                  (''explicit'', PBool False), (''duration_ms'', PInt 0),
                  (''album_name'', PStr ''Unknown Album''),
                  (''album_release_date'', PStr ''Unknown Date''),
                  (''artist_names'', PStr []), (''artist_ids'', PStr []),
                  (''lyrics'', PNone)]))"
  by (simp add: get_track_data_def extract_track_def artist_names_of_def artist_ids_of_def
        py_join_def album_field_def entry_def try_except_def ret_def)


text \<open>
  C8 (amended). On an entry that is a record, \<^verbatim>\<open>get_track_data\<close> never raises. In
  every record it returns, the joined artist names are the names of the artist list's
  dictionary entries (\<^verbatim>\<open>'Unknown Artist'\<close> for an entry without a name), joined with
  \<^verbatim>\<open>', '\<close>. A track with a valid id whose artist list is absent or has no dictionary
  entry, and whose album is absent, empty or a dictionary, is turned into a record with
  the empty string for its artist names. A value that cannot be iterated in place of
  the artist list makes the extraction raise; the exception is caught and logged, and
  the entry yields \<^verbatim>\<open>None\<close>.
\<close>

theorem artist_names_joined:
  assumes "is_dict track_item"
  shows "(\<exists>es v. get_track_data c track_item = (es, Inr v))
       \<and> (\<forall>r. get_track_data c track_item = (evs, Inr (PDict r)) \<longrightarrow>
             (\<exists>ys. py_iter (field_or (track_of track_item) ''artists'' (PList [])) = Inr ys
                \<and> list_all is_str (map name_of_artist (filter is_dict ys))
                \<and> map_of r ''artist_names'' =
                    Some (PStr (intersperse '', '' (map str_of (map name_of_artist (filter is_dict ys)))))))
       \<and> (valid_id track_item
            \<and> py_iter (field_or (track_of track_item) ''artists'' (PList [])) = Inr xs
            \<and> filter is_dict xs = []
            \<and> (truthy (field_or (track_of track_item) ''album'' (PDict [])) \<longrightarrow>
                 is_dict (field_or (track_of track_item) ''album'' (PDict [])))
          \<longrightarrow> (\<exists>r. get_track_data c track_item = ([], Inr (PDict r))
                 \<and> map_of r ''artist_names'' = Some (PStr [])))
       \<and> (valid_id track_item
            \<and> py_iter (field_or (track_of track_item) ''artists'' (PList [])) = Inl e
          \<longrightarrow> get_track_data c track_item = ([LogTrackError e], Inr PNone))"
proof (intro conjI allI impI)
  show "\<exists>es v. get_track_data c track_item = (es, Inr v)"
    using assms by (auto simp: get_track_data_entry split: prod.splits sum.splits)
next
  fix r assume "get_track_data c track_item = (evs, Inr (PDict r))"
  then have "extract_track c (track_of track_item) = (evs, Inr (PDict r))"
    using get_track_data_record by simp
  from extract_track_record [OF this] obtain an ai aname adate lyr where
    n: "artist_names_of (field_or (track_of track_item) ''artists'' (PList [])) = Inr an" and
    r: "r = base_record (track_of track_item) an ai aname adate @ [(''lyrics'', lyr)]"
    by blast
  from n obtain ys where i: "py_iter (field_or (track_of track_item) ''artists'' (PList [])) = Inr ys"
    by (cases "py_iter (field_or (track_of track_item) ''artists'' (PList []))")
       (simp_all add: artist_names_of_def)
  from n artist_names_of_iter [OF i]
  have j: "py_join '', '' (map name_of_artist (filter is_dict ys)) = Inr an"
    by simp
  then have "list_all is_str (map name_of_artist (filter is_dict ys))"
       and "an = intersperse '', '' (map str_of (map name_of_artist (filter is_dict ys)))"
    by (auto simp: py_join_def split: if_splits)
  with i r show "\<exists>ys. py_iter (field_or (track_of track_item) ''artists'' (PList [])) = Inr ys
                \<and> list_all is_str (map name_of_artist (filter is_dict ys))
                \<and> map_of r ''artist_names'' =
                    Some (PStr (intersperse '', '' (map str_of (map name_of_artist (filter is_dict ys)))))"
    by (simp add: base_record_def)
next
  assume h: "valid_id track_item
            \<and> py_iter (field_or (track_of track_item) ''artists'' (PList [])) = Inr xs
            \<and> filter is_dict xs = []
            \<and> (truthy (field_or (track_of track_item) ''album'' (PDict [])) \<longrightarrow>
                 is_dict (field_or (track_of track_item) ''album'' (PDict [])))"
  then have n: "artist_names_of (field_or (track_of track_item) ''artists'' (PList [])) = Inr []"
    using artist_names_of_iter [of _ xs] by (simp add: py_join_def)
  from h have i: "artist_ids_of (field_or (track_of track_item) ''artists'' (PList [])) = Inr []"
    using artist_ids_of_no_dict by simp
  from h have a: "\<exists>v. album_field (field_or (track_of track_item) ''album'' (PDict [])) k d = Inr v" for k d
    by (auto simp: album_field_def py_get_field_or)
  from h have d: "is_dict (track_of track_item)" "truthy (field_or (track_of track_item) ''id'' PNone)"
    by (simp_all add: valid_id_def)
  from h have t: "truthy (track_of track_item)" by (simp add: truthy_id_dict)
  obtain aname where an: "album_field (field_or (track_of track_item) ''album'' (PDict [])) ''name'' (PStr ''Unknown Album'') = Inr aname"
    using a by blast
  obtain adate where ad: "album_field (field_or (track_of track_item) ''album'' (PDict [])) ''release_date'' (PStr ''Unknown Date'') = Inr adate"
    using a by blast
  show "\<exists>r. get_track_data c track_item = ([], Inr (PDict r))
                 \<and> map_of r ''artist_names'' = Some (PStr [])"
    using assms t d n i an ad
    by (simp add: get_track_data_entry extract_track_dict base_record_def)
next
  assume h: "valid_id track_item
            \<and> py_iter (field_or (track_of track_item) ''artists'' (PList [])) = Inl e"
  then have d: "is_dict (track_of track_item)" "truthy (field_or (track_of track_item) ''id'' PNone)"
    by (simp_all add: valid_id_def)
  from h have t: "truthy (track_of track_item)" by (simp add: truthy_id_dict)
  from h have n: "artist_names_of (field_or (track_of track_item) ''artists'' (PList [])) = Inl e"
    by (simp add: artist_names_of_def)
  show "get_track_data c track_item = ([LogTrackError e], Inr PNone)"
    using assms t d n by (simp add: get_track_data_entry extract_track_dict)
qed

theorem artist_names_joined_witness:
  "is_dict (entry (PDict [(''id'', PStr ''t3''), (''name'', PStr ''Song''),
             (''artists'', PList [PDict [(''name'', PStr ''Ann'')], PInt 7,
                                  PDict [(''name'', PStr ''Bob'')]])]))
   \<and> get_track_data (demo_collector [])
        (entry (PDict [(''id'', PStr ''t3''), (''name'', PStr ''Song''),
             (''artists'', PList [PDict [(''name'', PStr ''Ann'')], PInt 7,
                                  PDict [(''name'', PStr ''Bob'')]])])) =
     ([LyricsSearch (PStr ''Song'') ''Ann, Bob''],
      Inr (PDict [(''id'', PStr ''t3''), (''name'', PStr ''Song''), (''popularity'', PInt 0),
                  (''explicit'', PBool False), (''duration_ms'', PInt 0),
                  (''album_name'', PStr ''Unknown Album''),
                  (''album_release_date'', PStr ''Unknown Date''),
                  (''artist_names'', PStr ''Ann, Bob''), (''artist_ids'', PStr []),
                  (''lyrics'', PStr ''la la la'')]))"
proof -
  have d: "is_dict (entry (PDict [(''id'', PStr ''t3''), (''name'', PStr ''Song''),
             (''artists'', PList [PDict [(''name'', PStr ''Ann'')], PInt 7,
                                  PDict [(''name'', PStr ''Bob'')]])]))"
    by (simp add: entry_def)
  have a: "get_track_data (demo_collector [])
        (entry (PDict [(''id'', PStr ''t3''), (''name'', PStr ''Song''),
             (''artists'', PList [PDict [(''name'', PStr ''Ann'')], PInt 7,
                                  PDict [(''name'', PStr ''Bob'')]])])) =
     ([LyricsSearch (PStr ''Song'') ''Ann, Bob''],
      Inr (PDict [(''id'', PStr ''t3''), (''name'', PStr ''Song''), (''popularity'', PInt 0),
                  (''explicit'', PBool False), (''duration_ms'', PInt 0),
                  (''album_name'', PStr ''Unknown Album''),
                  (''album_release_date'', PStr ''Unknown Date''),
                  (''artist_names'', PStr ''Ann, Bob''), (''artist_ids'', PStr []),
                  (''lyrics'', PStr ''la la la'')]))"
    by (simp add: get_track_data_def extract_track_def artist_names_of_def artist_ids_of_def
          py_join_def album_field_def get_lyrics_eq demo_collector_def demo_search_def
          entry_def try_except_def ret_def)
  show ?thesis
    using d a artist_names_joined [OF d, of "demo_collector []"] by simp
qed

text \<open>
  The claim C8 as stated fails: a track whose artist list is \<^verbatim>\<open>None\<close> is not turned
  into a record; the entry is skipped.
\<close>

theorem artist_names_counterexample:
  "get_track_data (demo_collector []) (entry (PDict [(''id'', PStr ''t1''), (''artists'', PNone)])) =
     ([LogTrackError TypeError], Inr PNone)"
  by (simp add: get_track_data_def extract_track_def artist_names_of_def artist_ids_of_def
        py_join_def album_field_def entry_def try_except_def ret_def)

section \<open>The collection loop\<close>

lemma get_track_data_dict_returns:
  "is_dict track_item \<Longrightarrow>
   get_track_data c track_item = (fst (get_track_data c track_item), Inr (entry_record c track_item))"
proof -
  assume "is_dict track_item"
  then have "\<exists>es v. get_track_data c track_item = (es, Inr v)"
    by (auto simp: get_track_data_entry split: prod.splits sum.splits)
  then show ?thesis by (auto simp: entry_record_def)
qed

lemma throttle_returns: "throttle i = (fst (throttle i), Inr ())"
  by (simp add: throttle_def ret_def emit_def)

lemma enrich_loop_dicts:
  "list_all is_dict tracks \<Longrightarrow>
   enrich_loop c i tracks acc = (loop_events c i tracks, Inr (acc @ loop_rows c tracks))"
proof (induction tracks arbitrary: i acc)
  case Nil
  then show ?case by (simp add: ret_def loop_rows_def)
next
  case (Cons t ts)
  then have d: "is_dict t" and r: "list_all is_dict ts" by simp_all
  show ?case
    apply (simp only: enrich_loop.simps)
    apply (subst get_track_data_dict_returns [OF d])
    apply (subst throttle_returns)
    apply (simp add: Cons.IH [OF r] loop_rows_def)
    done
qed

lemma enrich_loop_abort:
  "list_all is_dict pre \<Longrightarrow> \<not> is_dict bad \<Longrightarrow>
   enrich_loop c i (pre @ bad # post) acc = (loop_events c i pre, Inl AttributeError)"
proof (induction pre arbitrary: i acc)
  case Nil
  then show ?case by (simp add: get_track_data_not_dict)
next
  case (Cons t ts)
  then have d: "is_dict t" and r: "list_all is_dict ts" by simp_all
  show ?case
    apply (simp only: enrich_loop.simps append_Cons)
    apply (subst get_track_data_dict_returns [OF d])
    apply (subst throttle_returns)
    apply (simp add: Cons.IH [OF r Cons.prems(2)])
    done
qed


















lemma collect_run:
  assumes "get_playlist_tracks c playlist_id = Some (Inr tracks)"
      and "list_all is_dict tracks"
      and "makedirs fs (dirname output_file) = Inr fs1"
      and "open_for_write fs1 output_file = Inr ()"
  shows "collect_playlist_data c fs playlist_id output_file =
           Some (LogCollecting playlist_id # LogFound (length tracks) # loop_events c 0 tracks
                   @ [LogSaved output_file],
                 fs1\<lparr>files := (output_file, DataFrame (loop_rows c tracks))
                                  # filter (\<lambda>f. fst f \<noteq> output_file) (files fs1)\<rparr>,
                 Inr (DataFrame (loop_rows c tracks)))"
  using assms
  by (simp add: collect_playlist_data_def enrich_loop_dicts to_csv_def Let_def)

lemma not_all_dict_split:
  "\<not> list_all is_dict tracks \<Longrightarrow>
   \<exists>bad post. tracks = takeWhile is_dict tracks @ bad # post \<and> \<not> is_dict bad"
proof -
  assume "\<not> list_all is_dict tracks"
  then have "dropWhile is_dict tracks \<noteq> []"
    by (simp add: list_all_iff dropWhile_eq_Nil_conv)
  then obtain bad post where d: "dropWhile is_dict tracks = bad # post"
    by (cases "dropWhile is_dict tracks") simp_all
  then have "\<not> is_dict bad"
    using hd_dropWhile [of is_dict tracks] by auto
  with d show ?thesis
    using takeWhile_dropWhile_id [of is_dict tracks] by metis
qed

lemma collect_abort:
  assumes "get_playlist_tracks c playlist_id = Some (Inr tracks)"
      and "\<not> list_all is_dict tracks"
  shows "collect_playlist_data c fs playlist_id output_file =
           Some (LogCollecting playlist_id # LogFound (length tracks)
                   # loop_events c 0 (takeWhile is_dict tracks),
                 fs, Inl AttributeError)"
proof -
  from not_all_dict_split [OF assms(2)] obtain bad post where
    s: "tracks = takeWhile is_dict tracks @ bad # post" and b: "\<not> is_dict bad"
    by blast
  have p: "list_all is_dict (takeWhile is_dict tracks)"
    by (simp add: list_all_iff) (meson set_takeWhileD)
  have "enrich_loop c 0 (takeWhile is_dict tracks @ bad # post) [] =
          (loop_events c 0 (takeWhile is_dict tracks), Inl AttributeError)"
    using enrich_loop_abort [OF p b] .
  with s have "enrich_loop c 0 tracks [] =
          (loop_events c 0 (takeWhile is_dict tracks), Inl AttributeError)"
    by simp
  with assms(1) show ?thesis
    by (simp add: collect_playlist_data_def)
qed

lemma extract_track_none:
  "is_dict track \<Longrightarrow> truthy (field_or track ''id'' PNone) \<Longrightarrow>
   extract_track c track \<noteq> (es, Inr PNone)"
  by (auto simp: extract_track_dict ret_def get_lyrics_eq split: sum.splits option.splits)

lemma get_track_data_invalid:
  "is_dict track_item \<Longrightarrow> \<not> valid_id track_item \<Longrightarrow>
   snd (get_track_data c track_item) = Inr PNone"
proof -
  assume d: "is_dict track_item" and v: "\<not> valid_id track_item"
  show ?thesis
  proof (cases "is_dict (track_of track_item)")
    case False
    with d show ?thesis
      by (simp add: get_track_data_entry extract_track_not_dict)
  next
    case True
    with v have "\<not> truthy (field_or (track_of track_item) ''id'' PNone)"
      by (simp add: valid_id_def)
    with d True show ?thesis
      by (simp add: get_track_data_entry extract_track_dict)
  qed
qed

lemma truthy_entry_record:
  "is_dict track_item \<Longrightarrow> truthy (entry_record c track_item) = extraction_ok c track_item"
proof (cases "valid_id track_item")
  case False
  assume d: "is_dict track_item"
  from False have "\<not> extraction_ok c track_item" by (simp add: extraction_ok_def)
  moreover have "entry_record c track_item = PNone"
    using get_track_data_invalid [OF d False] by (simp add: entry_record_def)
  ultimately show ?thesis by simp
next
  case True
  assume d: "is_dict track_item"
  from True have t: "truthy (track_of track_item)" by (rule truthy_id_dict)
  from True have dt: "is_dict (track_of track_item)"
    and ti: "truthy (field_or (track_of track_item) ''id'' PNone)"
    by (simp_all add: valid_id_def)
  obtain es x where e: "extract_track c (track_of track_item) = (es, x)"
    by (cases "extract_track c (track_of track_item)")
  show ?thesis
  proof (cases x)
    case (Inl err)
    with d t e True show ?thesis
      by (simp add: entry_record_def get_track_data_entry extraction_ok_def)
  next
    case (Inr v)
    with e extract_track_value [of c "track_of track_item" es v]
         extract_track_none [OF dt ti, of c es]
    obtain r where r: "v = PDict r" by auto
    with e Inr extract_track_record [of c "track_of track_item" es r]
    have "r \<noteq> []" by auto
    with d t e True Inr r show ?thesis
      by (simp add: entry_record_def get_track_data_entry extraction_ok_def)
  qed
qed

lemma loop_rows_extraction_ok:
  "list_all is_dict tracks \<Longrightarrow>
   loop_rows c tracks = map (entry_record c) (filter (extraction_ok c) tracks)"
proof (induction tracks)
  case Nil
  then show ?case by (simp add: loop_rows_def)
next
  case (Cons t ts)
  then show ?case
    using truthy_entry_record [of t c] by (simp add: loop_rows_def)
qed

lemma filter_valid_id_le:
  "length (filter (extraction_ok c) tracks) \<le> length (filter valid_id tracks)"
  by (induction tracks) (auto simp: extraction_ok_def)


lemma loop_events_append:
  "loop_events c i (xs @ ys) = loop_events c i xs @ loop_events c (i + length xs) ys"
  by (induction xs arbitrary: i) simp_all





section \<open>Evaluating the test doubles\<close>

lemma demo_pagination:
  "get_playlist_tracks (demo_collector [tracks]) playlist_id = Some (Inr tracks)"
  by (simp add: get_playlist_tracks_def demo_collector_def demo_first_def page_at_def
        walk_pages.simps has_next_def)

lemma demo_makedirs: "makedirs demo_fs ''out'' = Inr \<lparr>dirs = [''out'', ''/''], files = []\<rparr>"
  by (simp add: makedirs.simps makedirs_split_def path_split_def mkdir_exist_ok_def mkdir_def
        path_exists_def isdir_def dirname_def demo_fs_def rstrip_sep_def)

lemma demo_dirname: "dirname ''out/tracks.csv'' = ''out''"
  by (simp add: dirname_def path_split_def rstrip_sep_def)

lemma demo_open: "open_for_write \<lparr>dirs = [''out'', ''/''], files = []\<rparr> ''out/tracks.csv'' = Inr ()"
  by (simp add: open_for_write_def demo_dirname isdir_def path_split_def)

lemma demo_track_data:
  "get_track_data (demo_collector pages) (entry (demo_track track_id ''Song'')) =
     (if track_id = [] then ([], Inr PNone)
      else ([LyricsSearch (PStr ''Song'') ''Ann''],
            Inr (demo_record track_id ''Song'' (PStr ''la la la''))))"
  by (simp add: get_track_data_def extract_track_def artist_names_of_def artist_ids_of_def
        py_join_def album_field_def get_lyrics_eq demo_collector_def demo_search_def
        entry_def demo_track_def demo_record_def try_except_def ret_def)

section \<open>The orchestrator\<close>

text \<open>
  C10. An entry that is not a record (\<^verbatim>\<open>None\<close>, say) makes \<^verbatim>\<open>get_track_data\<close> raise
  \<^verbatim>\<open>AttributeError\<close> at the track lookup, before its handler is in scope; and a playlist
  holding such an entry makes \<^verbatim>\<open>collect_playlist_data\<close> end with that exception, the
  file system left as it was.
\<close>

theorem malformed_entry_aborts:
  "(\<not> is_dict track_item \<longrightarrow> get_track_data c track_item = ([], Inl AttributeError))
   \<and> (get_playlist_tracks c playlist_id = Some (Inr tracks) \<and> \<not> list_all is_dict tracks \<longrightarrow>
        (\<exists>evs. collect_playlist_data c fs playlist_id output_file
                  = Some (evs, fs, Inl AttributeError)))"
  by (simp add: get_track_data_not_dict collect_abort)

text \<open>
  C1 (amended). For an entry whose track payload is null or whose track has no
  identifier, \<^verbatim>\<open>get_track_data\<close> returns \<^verbatim>\<open>None\<close> and the loop appends nothing. When
  the run completes, the data frame's rows are the records of the entries with a valid
  id whose extraction raises no exception, in playlist order: the row count is the
  number of these entries, at most the number of entries with a valid id, which is at
  most the entry count; and it equals the number of entries with a valid id when no
  extraction raises.
\<close>

theorem invalid_entries_dropped:
  "(is_dict track_item \<and> \<not> valid_id track_item \<longrightarrow>
      snd (get_track_data c track_item) = Inr PNone \<and> loop_rows c [track_item] = [])
   \<and> (get_playlist_tracks c playlist_id = Some (Inr tracks)
        \<and> list_all is_dict tracks
        \<and> makedirs fs (dirname output_file) = Inr fs1
        \<and> open_for_write fs1 output_file = Inr ()
      \<longrightarrow> (\<exists>evs fs2 df.
             collect_playlist_data c fs playlist_id output_file = Some (evs, fs2, Inr df)
           \<and> rows df = map (entry_record c) (filter (extraction_ok c) tracks)
           \<and> length (rows df) = length (filter (extraction_ok c) tracks)
           \<and> length (rows df) \<le> length (filter valid_id tracks)
           \<and> length (filter valid_id tracks) \<le> length tracks
           \<and> ((\<forall>t\<in>set tracks. valid_id t \<longrightarrow> extraction_ok c t) \<longrightarrow>
                length (rows df) = length (filter valid_id tracks))))"
proof (rule conjI; rule impI)
  assume "is_dict track_item \<and> \<not> valid_id track_item"
  then show "snd (get_track_data c track_item) = Inr PNone \<and> loop_rows c [track_item] = []"
    using get_track_data_invalid [of track_item c]
    by (simp add: loop_rows_def entry_record_def)
next
  assume h: "get_playlist_tracks c playlist_id = Some (Inr tracks)
        \<and> list_all is_dict tracks
        \<and> makedirs fs (dirname output_file) = Inr fs1
        \<and> open_for_write fs1 output_file = Inr ()"
  then have run: "collect_playlist_data c fs playlist_id output_file =
           Some (LogCollecting playlist_id # LogFound (length tracks) # loop_events c 0 tracks
                   @ [LogSaved output_file],
                 fs1\<lparr>files := (output_file, DataFrame (loop_rows c tracks))
                                  # filter (\<lambda>f. fst f \<noteq> output_file) (files fs1)\<rparr>,
                 Inr (DataFrame (loop_rows c tracks)))"
    using collect_run by simp
  from h have r: "loop_rows c tracks = map (entry_record c) (filter (extraction_ok c) tracks)"
    using loop_rows_extraction_ok by simp
  have same: "filter (extraction_ok c) tracks = filter valid_id tracks"
    if "\<forall>t\<in>set tracks. valid_id t \<longrightarrow> extraction_ok c t"
    using that by (intro filter_cong) (auto simp: extraction_ok_def)
  show "\<exists>evs fs2 df.
             collect_playlist_data c fs playlist_id output_file = Some (evs, fs2, Inr df)
           \<and> rows df = map (entry_record c) (filter (extraction_ok c) tracks)
           \<and> length (rows df) = length (filter (extraction_ok c) tracks)
           \<and> length (rows df) \<le> length (filter valid_id tracks)
           \<and> length (filter valid_id tracks) \<le> length tracks
           \<and> ((\<forall>t\<in>set tracks. valid_id t \<longrightarrow> extraction_ok c t) \<longrightarrow>
                length (rows df) = length (filter valid_id tracks))"
    using run r filter_valid_id_le [of c tracks] same by simp
qed


text \<open>
  C4. An exception raised by the field extraction is caught by \<^verbatim>\<open>get_track_data\<close>:
  it logs the exception and returns \<^verbatim>\<open>None\<close>. The loop goes on: the run's data frame
  holds the rows of the entries before and after the failing one.
\<close>

theorem extraction_failure_skips_entry:
  "(is_dict track_item \<and> truthy (track_of track_item)
      \<and> extract_track c (track_of track_item) = (es, Inl e)
    \<longrightarrow> get_track_data c track_item = (es @ [LogTrackError e], Inr PNone))
   \<and> (get_playlist_tracks c playlist_id = Some (Inr (pre @ track_item # post))
        \<and> list_all is_dict (pre @ track_item # post)
        \<and> truthy (track_of track_item)
        \<and> extract_track c (track_of track_item) = (es, Inl e)
        \<and> makedirs fs (dirname output_file) = Inr fs1
        \<and> open_for_write fs1 output_file = Inr ()
      \<longrightarrow> (\<exists>evs fs2.
             collect_playlist_data c fs playlist_id output_file
               = Some (evs, fs2, Inr (DataFrame (loop_rows c pre @ loop_rows c post)))
           \<and> LogTrackError e \<in> set evs))"
proof (rule conjI; rule impI)
  assume "is_dict track_item \<and> truthy (track_of track_item)
      \<and> extract_track c (track_of track_item) = (es, Inl e)"
  then show "get_track_data c track_item = (es @ [LogTrackError e], Inr PNone)"
    by (simp add: get_track_data_entry)
next
  assume h: "get_playlist_tracks c playlist_id = Some (Inr (pre @ track_item # post))
        \<and> list_all is_dict (pre @ track_item # post)
        \<and> truthy (track_of track_item)
        \<and> extract_track c (track_of track_item) = (es, Inl e)
        \<and> makedirs fs (dirname output_file) = Inr fs1
        \<and> open_for_write fs1 output_file = Inr ()"
  let ?tracks = "pre @ track_item # post"
  let ?evs = "LogCollecting playlist_id # LogFound (length ?tracks) # loop_events c 0 ?tracks
                   @ [LogSaved output_file]"
  from h have run: "collect_playlist_data c fs playlist_id output_file =
           Some (?evs,
                 fs1\<lparr>files := (output_file, DataFrame (loop_rows c ?tracks))
                                  # filter (\<lambda>f. fst f \<noteq> output_file) (files fs1)\<rparr>,
                 Inr (DataFrame (loop_rows c ?tracks)))"
    using collect_run [of c playlist_id ?tracks fs output_file fs1] by simp
  from h have g: "get_track_data c track_item = (es @ [LogTrackError e], Inr PNone)"
    by (simp add: get_track_data_entry)
  then have "entry_record c track_item = PNone"
    by (simp add: entry_record_def)
  then have rows: "loop_rows c ?tracks = loop_rows c pre @ loop_rows c post"
    by (simp add: loop_rows_def)
  from g have "LogTrackError e \<in> set (loop_events c 0 ?tracks)"
    by (simp add: loop_events_append)
  then have "LogTrackError e \<in> set ?evs"
    by simp
  with run rows show "\<exists>evs fs2.
             collect_playlist_data c fs playlist_id output_file
               = Some (evs, fs2, Inr (DataFrame (loop_rows c pre @ loop_rows c post)))
           \<and> LogTrackError e \<in> set evs"
    by simp
qed

section \<open>Runs of the test doubles\<close>

lemma demo_no_match_data:
  "get_track_data (demo_collector pages) (entry (demo_track ''t4'' ''No Match'')) =
     ([LyricsSearch (PStr ''No Match'') ''Ann''], Inr (demo_record ''t4'' ''No Match'' PNone))"
  by (simp add: get_track_data_def extract_track_def artist_names_of_def artist_ids_of_def
        py_join_def album_field_def get_lyrics_eq demo_collector_def demo_search_def
        entry_def demo_track_def demo_record_def try_except_def ret_def)

lemma demo_no_track_data: "get_track_data c (entry PNone) = ([], Inr PNone)"
  by (simp add: get_track_data_def entry_def ret_def)

lemma demo_no_artists_data:
  "get_track_data c (entry (PDict [(''id'', PStr ''t3''), (''artists'', PNone)])) =
     ([LogTrackError TypeError], Inr PNone)"
  by (simp add: get_track_data_def extract_track_def artist_names_of_def entry_def
        try_except_def ret_def)

lemma throttle_small: "i < 20 \<Longrightarrow> throttle i = ([], Inr ())"
  by (auto simp: throttle_def ret_def)

lemma mixed_run:
  "collect_playlist_data (demo_collector [mixed_playlist]) demo_fs ''p'' ''out/tracks.csv'' =
     Some ([LogCollecting ''p'', LogFound 4, LyricsSearch (PStr ''Song'') ''Ann'',
            LogTrackError TypeError, LyricsSearch (PStr ''No Match'') ''Ann'',
            LogSaved ''out/tracks.csv''],
           \<lparr>dirs = [''out'', ''/''],
              files = [(''out/tracks.csv'',
                        DataFrame [demo_record ''t1'' ''Song'' (PStr ''la la la''),
                                   demo_record ''t4'' ''No Match'' PNone])]\<rparr>,
           Inr (DataFrame [demo_record ''t1'' ''Song'' (PStr ''la la la''),
                           demo_record ''t4'' ''No Match'' PNone]))"
  by (simp add: collect_playlist_data_def demo_pagination demo_dirname demo_makedirs demo_open
        to_csv_def Let_def)
     (simp add: mixed_playlist_def demo_track_data demo_no_match_data demo_no_track_data
        demo_no_artists_data throttle_small demo_record_def ret_def)


lemma mixed_valid_id: "map valid_id mixed_playlist = [True, False, True, True]"
  by (simp add: mixed_playlist_def valid_id_def track_of_def entry_def demo_track_def)

lemma mixed_dicts: "list_all is_dict mixed_playlist"
  by (simp add: mixed_playlist_def entry_def)

text \<open>
  The amended C1 on the mixed playlist: four entries, three valid ids, two rows.
\<close>

theorem invalid_entries_dropped_witness:
  "get_playlist_tracks (demo_collector [mixed_playlist]) ''p'' = Some (Inr mixed_playlist)
   \<and> list_all is_dict mixed_playlist
   \<and> makedirs demo_fs (dirname ''out/tracks.csv'') = Inr \<lparr>dirs = [''out'', ''/''], files = []\<rparr>
   \<and> open_for_write \<lparr>dirs = [''out'', ''/''], files = []\<rparr> ''out/tracks.csv'' = Inr ()
   \<and> snd (get_track_data (demo_collector [mixed_playlist]) (entry PNone)) = Inr PNone
   \<and> (\<exists>evs fs2 df.
         collect_playlist_data (demo_collector [mixed_playlist]) demo_fs ''p'' ''out/tracks.csv''
           = Some (evs, fs2, Inr df)
       \<and> rows df = [demo_record ''t1'' ''Song'' (PStr ''la la la''),
                     demo_record ''t4'' ''No Match'' PNone]
       \<and> length (rows df) \<le> length (filter valid_id mixed_playlist)
       \<and> length (filter valid_id mixed_playlist) \<le> length mixed_playlist)"
proof -
  have h: "get_playlist_tracks (demo_collector [mixed_playlist]) ''p'' = Some (Inr mixed_playlist)
        \<and> list_all is_dict mixed_playlist
        \<and> makedirs demo_fs (dirname ''out/tracks.csv'') = Inr \<lparr>dirs = [''out'', ''/''], files = []\<rparr>
        \<and> open_for_write \<lparr>dirs = [''out'', ''/''], files = []\<rparr> ''out/tracks.csv'' = Inr ()"
    by (simp add: demo_pagination mixed_dicts demo_dirname demo_makedirs demo_open)
  have i: "is_dict (entry PNone) \<and> \<not> valid_id (entry PNone)"
    by (simp add: entry_def valid_id_def track_of_def)
  from invalid_entries_dropped
         [of "entry PNone" "demo_collector [mixed_playlist]" "''p''" mixed_playlist demo_fs
             "''out/tracks.csv''" "\<lparr>dirs = [''out'', ''/''], files = []\<rparr>"]
  have "snd (get_track_data (demo_collector [mixed_playlist]) (entry PNone)) = Inr PNone"
   and "\<exists>evs fs2 df.
         collect_playlist_data (demo_collector [mixed_playlist]) demo_fs ''p'' ''out/tracks.csv''
           = Some (evs, fs2, Inr df)
       \<and> length (rows df) \<le> length (filter valid_id mixed_playlist)
       \<and> length (filter valid_id mixed_playlist) \<le> length mixed_playlist"
    using h i by auto
  then show ?thesis
    using h by (simp add: mixed_run)
qed

text \<open>
  The claim C1 as stated fails: the mixed playlist has three entries with a valid id,
  and its data frame has two rows, since the extraction of the track whose artist list
  is \<^verbatim>\<open>None\<close> raises.
\<close>

theorem row_count_counterexample:
  "collect_playlist_data (demo_collector [mixed_playlist]) demo_fs ''p'' ''out/tracks.csv'' =
     Some ([LogCollecting ''p'', LogFound 4, LyricsSearch (PStr ''Song'') ''Ann'',
            LogTrackError TypeError, LyricsSearch (PStr ''No Match'') ''Ann'',
            LogSaved ''out/tracks.csv''],
           \<lparr>dirs = [''out'', ''/''],
              files = [(''out/tracks.csv'',
                        DataFrame [demo_record ''t1'' ''Song'' (PStr ''la la la''),
                                   demo_record ''t4'' ''No Match'' PNone])]\<rparr>,
           Inr (DataFrame [demo_record ''t1'' ''Song'' (PStr ''la la la''),
                           demo_record ''t4'' ''No Match'' PNone]))
   \<and> length (filter valid_id mixed_playlist) = 3
   \<and> length (rows (DataFrame [demo_record ''t1'' ''Song'' (PStr ''la la la''),
                               demo_record ''t4'' ''No Match'' PNone]))
       \<noteq> length (filter valid_id mixed_playlist)"
proof -
  have "filter valid_id mixed_playlist =
          [entry (demo_track ''t1'' ''Song''),
           entry (PDict [(''id'', PStr ''t3''), (''artists'', PNone)]),
           entry (demo_track ''t4'' ''No Match'')]"
    by (simp add: mixed_playlist_def valid_id_def track_of_def entry_def demo_track_def)
  then show ?thesis
    by (simp add: mixed_run)
qed

text \<open>
  C4 on the mixed playlist: the third entry's extraction raises \<^verbatim>\<open>TypeError\<close>, and the
  fourth entry still yields its row.
\<close>

theorem extraction_failure_skips_entry_witness:
  "get_track_data (demo_collector [mixed_playlist])
     (entry (PDict [(''id'', PStr ''t3''), (''artists'', PNone)]))
     = ([LogTrackError TypeError], Inr PNone)
   \<and> (\<exists>evs fs2.
         collect_playlist_data (demo_collector [mixed_playlist]) demo_fs ''p'' ''out/tracks.csv''
           = Some (evs, fs2,
                   Inr (DataFrame [demo_record ''t1'' ''Song'' (PStr ''la la la''),
                                   demo_record ''t4'' ''No Match'' PNone]))
       \<and> LogTrackError TypeError \<in> set evs)"
proof -
  let ?c = "demo_collector [mixed_playlist]"
  let ?bad = "entry (PDict [(''id'', PStr ''t3''), (''artists'', PNone)])"
  let ?pre = "[entry (demo_track ''t1'' ''Song''), entry PNone]"
  let ?post = "[entry (demo_track ''t4'' ''No Match'')]"
  have m: "mixed_playlist = ?pre @ ?bad # ?post"
    by (simp add: mixed_playlist_def)
  have t: "is_dict ?bad \<and> truthy (track_of ?bad)"
    by (simp add: entry_def track_of_def)
  have x: "extract_track ?c (track_of ?bad) = ([], Inl TypeError)"
    by (simp add: extract_track_def artist_names_of_def entry_def track_of_def)
  have h: "get_playlist_tracks ?c ''p'' = Some (Inr (?pre @ ?bad # ?post))
        \<and> list_all is_dict (?pre @ ?bad # ?post)
        \<and> makedirs demo_fs (dirname ''out/tracks.csv'') = Inr \<lparr>dirs = [''out'', ''/''], files = []\<rparr>
        \<and> open_for_write \<lparr>dirs = [''out'', ''/''], files = []\<rparr> ''out/tracks.csv'' = Inr ()"
    using mixed_dicts demo_pagination [of mixed_playlist "''p''"]
    by (simp add: m demo_dirname demo_makedirs demo_open)
  have r: "loop_rows ?c ?pre @ loop_rows ?c ?post =
             [demo_record ''t1'' ''Song'' (PStr ''la la la''), demo_record ''t4'' ''No Match'' PNone]"
    by (simp add: loop_rows_def entry_record_def demo_track_data demo_no_match_data
          demo_no_track_data demo_record_def)
  from extraction_failure_skips_entry
         [of ?bad ?c "[]" TypeError "''p''" ?pre ?post demo_fs "''out/tracks.csv''"
             "\<lparr>dirs = [''out'', ''/''], files = []\<rparr>"]
  show ?thesis
    using t x h r by simp
qed

text \<open>
  C10 on the broken playlist: the run ends at the second entry, and the third is never
  processed.
\<close>

theorem malformed_entry_aborts_witness:
  "get_playlist_tracks (demo_collector [broken_playlist]) ''p'' = Some (Inr broken_playlist)
   \<and> get_track_data (demo_collector [broken_playlist]) PNone = ([], Inl AttributeError)
   \<and> collect_playlist_data (demo_collector [broken_playlist]) demo_fs ''p'' ''out/tracks.csv''
       = Some ([LogCollecting ''p'', LogFound 3, LyricsSearch (PStr ''Song'') ''Ann''],
               demo_fs, Inl AttributeError)"
proof -
  have p: "get_playlist_tracks (demo_collector [broken_playlist]) ''p'' = Some (Inr broken_playlist)"
    by (rule demo_pagination)
  have d: "\<not> list_all is_dict broken_playlist" "\<not> is_dict PNone"
    by (simp_all add: broken_playlist_def)
  have e: "collect_playlist_data (demo_collector [broken_playlist]) demo_fs ''p'' ''out/tracks.csv''
       = Some ([LogCollecting ''p'', LogFound 3, LyricsSearch (PStr ''Song'') ''Ann''],
               demo_fs, Inl AttributeError)"
    by (simp add: collect_playlist_data_def demo_pagination)
       (simp add: broken_playlist_def demo_track_data get_track_data_not_dict throttle_small)
  from malformed_entry_aborts
         [of PNone "demo_collector [broken_playlist]" "''p''" broken_playlist demo_fs
             "''out/tracks.csv''"]
  show ?thesis
    using p d e by simp
qed





section \<open>The pagination walker\<close>

lemma has_next_pointer: "has_next p = (next_url p \<noteq> None \<and> next_url p \<noteq> Some [])"
  by (cases "next_url p") (simp_all add: has_next_def)

lemma walk_pages_chain:
  "page_chain c (p # ps) \<Longrightarrow> walk_pages c p acc = Some (Inr (acc @ concat (map items ps)))"
proof (induction ps arbitrary: p acc)
  case Nil
  then have "\<not> has_next p"
    by (auto simp: has_next_pointer)
  then show ?case by (subst walk_pages.simps) simp
next
  case (Cons q qs)
  then have n: "has_next p" and f: "sp_next c p = Inr q" and r: "page_chain c (q # qs)"
    by (simp_all add: has_next_pointer)
  show ?case
    by (subst walk_pages.simps) (simp add: n f Cons.IH [OF r])
qed

lemma walk_pages_visits:
  "walk_pages c p acc = Some y \<Longrightarrow>
   \<forall>tracks. y = Inr tracks \<longrightarrow>
     (\<exists>ps. page_chain c (p # ps) \<and> tracks = acc @ concat (map items ps))"
proof (induction rule: walk_pages.raw_induct [rotated 1, consumes 1, case_names step])
  case (step walk c results acc y)
  note 1 = step
  show ?case
  proof (intro allI impI)
    fix tracks assume y: "y = Inr tracks"
    show "\<exists>ps. page_chain c (results # ps) \<and> tracks = acc @ concat (map items ps)"
    proof (cases "has_next results")
      case False
      with 1(2) y have "tracks = acc" by simp
      with False show ?thesis by (intro exI [of _ "[]"]) (auto simp: has_next_pointer)
    next
      case True
      with 1(2) y obtain q where q: "sp_next c results = Inr q"
        and w: "walk c q (acc @ items q) = Some (Inr tracks)"
        by (auto split: sum.splits)
      from 1(1) [OF w] obtain ps where "page_chain c (q # ps)"
        and "tracks = (acc @ items q) @ concat (map items ps)"
        by blast
      with True q show ?thesis by (intro exI [of _ "q # ps"]) (simp add: has_next_pointer)
    qed
  qed
qed

lemma walk_pages_sound:
  "walk_pages c p acc = Some (Inr tracks) \<Longrightarrow>
   \<exists>ps. page_chain c (p # ps) \<and> tracks = acc @ concat (map items ps)"
  using walk_pages_visits by blast

text \<open>
  C2. When the first page and the pages the next-page pointers lead to form a chain
  that ends with a page without a pointer, \<^verbatim>\<open>get_playlist_tracks\<close> returns, and what it
  returns is the concatenation of the pages' items in arrival order; for the pages
  \<open>[a, b]\<close> and \<open>[x]\<close> that is \<open>[a, b, x]\<close>. Conversely, every list it returns is the
  concatenation of such a chain.
\<close>

theorem pages_concatenated:
  "(sp_playlist_tracks c playlist_id = Inr p \<and> page_chain c (p # ps)
      \<longrightarrow> get_playlist_tracks c playlist_id = Some (Inr (concat (map items (p # ps)))))
   \<and> (sp_playlist_tracks c playlist_id = Inr p \<and> page_chain c [p, q]
        \<and> items p = [a, b] \<and> items q = [x]
      \<longrightarrow> get_playlist_tracks c playlist_id = Some (Inr [a, b, x]))
   \<and> (get_playlist_tracks c playlist_id = Some (Inr tracks)
      \<longrightarrow> (\<exists>p ps. sp_playlist_tracks c playlist_id = Inr p \<and> page_chain c (p # ps)
                 \<and> tracks = concat (map items (p # ps))))"
proof (intro conjI impI)
  assume "sp_playlist_tracks c playlist_id = Inr p \<and> page_chain c (p # ps)"
  then show "get_playlist_tracks c playlist_id = Some (Inr (concat (map items (p # ps))))"
    by (simp add: get_playlist_tracks_def walk_pages_chain)
next
  assume "sp_playlist_tracks c playlist_id = Inr p \<and> page_chain c [p, q]
        \<and> items p = [a, b] \<and> items q = [x]"
  then show "get_playlist_tracks c playlist_id = Some (Inr [a, b, x])"
    using walk_pages_chain [of c p "[q]" "items p"] by (simp add: get_playlist_tracks_def)
next
  assume g: "get_playlist_tracks c playlist_id = Some (Inr tracks)"
  then obtain p where p: "sp_playlist_tracks c playlist_id = Inr p"
    and w: "walk_pages c p (items p) = Some (Inr tracks)"
    by (auto simp: get_playlist_tracks_def split: sum.splits)
  from walk_pages_sound [OF w] obtain ps where "page_chain c (p # ps)"
    and "tracks = items p @ concat (map items ps)"
    by blast
  with p show "\<exists>p ps. sp_playlist_tracks c playlist_id = Inr p \<and> page_chain c (p # ps)
                 \<and> tracks = concat (map items (p # ps))"
    by auto
qed


text \<open>C2 on a provider serving two pages.\<close>

theorem pages_concatenated_witness:
  "sp_playlist_tracks (demo_collector two_pages) ''p''
     = Inr \<lparr>items = [PStr ''a'', PStr ''b''], next_url = Some ''n''\<rparr>
   \<and> page_chain (demo_collector two_pages)
         [\<lparr>items = [PStr ''a'', PStr ''b''], next_url = Some ''n''\<rparr>,
          \<lparr>items = [PStr ''c''], next_url = None\<rparr>]
   \<and> get_playlist_tracks (demo_collector two_pages) ''p''
     = Some (Inr [PStr ''a'', PStr ''b'', PStr ''c''])"
proof -
  let ?c = "demo_collector two_pages"
  let ?p = "\<lparr>items = [PStr ''a'', PStr ''b''], next_url = Some ''n''\<rparr>"
  let ?q = "\<lparr>items = [PStr ''c''], next_url = None\<rparr>"
  have f: "sp_playlist_tracks ?c ''p'' = Inr ?p"
    by (simp add: demo_collector_def demo_first_def page_at_def two_pages_def)
  have n: "page_chain ?c [?p, ?q]"
    by (simp add: demo_collector_def demo_next_def page_at_def two_pages_def)
  from pages_concatenated [of ?c "''p''" ?p "[?q]" ?q "PStr ''a''" "PStr ''b''" "PStr ''c''"]
  show ?thesis
    using f n by simp
qed


section \<open>The write step\<close>

lemma dirname_bare: "CHR ''/'' \<notin> set output_file \<Longrightarrow> dirname output_file = []"
proof -
  assume "CHR ''/'' \<notin> set output_file"
  then have "dropWhile (\<lambda>ch. ch \<noteq> CHR ''/'') (rev output_file) = []"
    by (auto simp: dropWhile_eq_Nil_conv)
  then show ?thesis
    by (simp add: dirname_def path_split_def)
qed

lemma makedirs_empty: "makedirs fs [] = Inl FileNotFoundError"
  by (subst makedirs.simps)
     (simp add: makedirs_split_def path_split_def mkdir_exist_ok_def mkdir_def isdir_def)

text \<open>
  C9 fails on the code for an output path without a directory part, such as
  \<^verbatim>\<open>tracks.csv\<close>: its \<^verbatim>\<open>dirname\<close> is the empty string, \<^verbatim>\<open>os.makedirs('')\<close> raises
  \<^verbatim>\<open>FileNotFoundError\<close>, and the run ends with that exception after all entries were
  processed, with nothing written.
\<close>

theorem bare_file_name_aborts:
  "get_playlist_tracks c playlist_id = Some (Inr tracks) \<and> list_all is_dict tracks
     \<and> CHR ''/'' \<notin> set output_file
   \<longrightarrow> collect_playlist_data c fs playlist_id output_file =
         Some (LogCollecting playlist_id # LogFound (length tracks) # loop_events c 0 tracks,
               fs, Inl FileNotFoundError)"
  by (simp add: collect_playlist_data_def enrich_loop_dicts dirname_bare makedirs_empty)

text \<open>The mixed playlist collected into \<^verbatim>\<open>tracks.csv\<close>.\<close>

theorem bare_file_name_aborts_witness:
  "get_playlist_tracks (demo_collector [mixed_playlist]) ''p'' = Some (Inr mixed_playlist)
   \<and> collect_playlist_data (demo_collector [mixed_playlist]) demo_fs ''p'' ''tracks.csv'' =
       Some ([LogCollecting ''p'', LogFound 4, LyricsSearch (PStr ''Song'') ''Ann'',
              LogTrackError TypeError, LyricsSearch (PStr ''No Match'') ''Ann''],
             demo_fs, Inl FileNotFoundError)"
proof -
  have e: "loop_events (demo_collector [mixed_playlist]) 0 mixed_playlist =
             [LyricsSearch (PStr ''Song'') ''Ann'', LogTrackError TypeError,
              LyricsSearch (PStr ''No Match'') ''Ann'']"
    by (simp add: mixed_playlist_def demo_track_data demo_no_match_data demo_no_track_data
          demo_no_artists_data throttle_small)
  have l: "length mixed_playlist = 4"
    by (simp add: mixed_playlist_def)
  from bare_file_name_aborts
         [of "demo_collector [mixed_playlist]" "''p''" mixed_playlist "''tracks.csv''" demo_fs]
  show ?thesis
    using e l by (simp add: demo_pagination mixed_dicts)
qed

end
